theory Spec2Isabelle
  imports Complex_Main
begin

section \<open>Values and errors\<close>

text \<open>
  The pipeline of \<^verbatim>\<open>scripts/risk_utils.py\<close> works on pandas tables of float cells.
  A float cell is a finite number, one of the two infinities, or NaN (pandas' missing
  value). Finite numbers are modelled as exact reals: rounding of the binary
  representation is not part of the model, and a zero has no sign (a division by
  zero behaves as a division by +0.0).
\<close>

datatype fl = NaN | PInf | NInf | Fin real

datatype error = KeyError | ValueError

definition inf_signed :: "real \<Rightarrow> fl" where
  "inf_signed a = (if 0 < a then PInf else if a < 0 then NInf else NaN)"

fun fl_add :: "fl \<Rightarrow> fl \<Rightarrow> fl" where
  "fl_add (Fin a) (Fin b) = Fin (a + b)"
| "fl_add NaN _ = NaN"
| "fl_add _ NaN = NaN"
| "fl_add PInf NInf = NaN"
| "fl_add NInf PInf = NaN"
| "fl_add PInf _ = PInf"
| "fl_add NInf _ = NInf"
| "fl_add _ PInf = PInf"
| "fl_add _ NInf = NInf"

fun fl_mult :: "fl \<Rightarrow> fl \<Rightarrow> fl" where
  "fl_mult (Fin a) (Fin b) = Fin (a * b)"
| "fl_mult NaN _ = NaN"
| "fl_mult _ NaN = NaN"
| "fl_mult PInf PInf = PInf"
| "fl_mult PInf NInf = NInf"
| "fl_mult NInf PInf = NInf"
| "fl_mult NInf NInf = PInf"
| "fl_mult PInf (Fin b) = inf_signed b"
| "fl_mult NInf (Fin b) = inf_signed (- b)"
| "fl_mult (Fin a) PInf = inf_signed a"
| "fl_mult (Fin a) NInf = inf_signed (- a)"

fun fl_div :: "fl \<Rightarrow> fl \<Rightarrow> fl" where
  "fl_div (Fin a) (Fin b) = (if b = 0 then inf_signed a else Fin (a / b))"
| "fl_div NaN _ = NaN"
| "fl_div _ NaN = NaN"
| "fl_div (Fin a) PInf = Fin 0"
| "fl_div (Fin a) NInf = Fin 0"
| "fl_div PInf (Fin b) = (if b < 0 then NInf else PInf)"
| "fl_div NInf (Fin b) = (if b < 0 then PInf else NInf)"
| "fl_div _ _ = NaN"

text \<open>\<^verbatim>\<open>np.maximum(x, c)\<close> and \<^verbatim>\<open>np.minimum(x, c)\<close> with a finite constant: NaN propagates.\<close>

fun np_maximum :: "fl \<Rightarrow> real \<Rightarrow> fl" where
  "np_maximum NaN c = NaN"
| "np_maximum PInf c = PInf"
| "np_maximum NInf c = Fin c"
| "np_maximum (Fin a) c = Fin (max a c)"

fun np_minimum :: "fl \<Rightarrow> real \<Rightarrow> fl" where
  "np_minimum NaN c = NaN"
| "np_minimum PInf c = Fin c"
| "np_minimum NInf c = NInf"
| "np_minimum (Fin a) c = Fin (min a c)"

text \<open>\<^verbatim>\<open>Series.round(0)\<close> rounds to the nearest integer, a tie to the even one.\<close>

definition round_half_even :: "real \<Rightarrow> int" where
  "round_half_even x =
     (let f = \<lfloor>x\<rfloor>; d = x - of_int f
      in if d < 1 / 2 then f else if 1 / 2 < d then f + 1
         else if even f then f else f + 1)"

fun fl_round :: "fl \<Rightarrow> fl" where
  "fl_round (Fin a) = Fin (of_int (round_half_even a))"
| "fl_round x = x"

text \<open>
  \<^verbatim>\<open>Series.astype(int)\<close>: a finite float is truncated towards zero; pandas refuses
  a series that holds NaN or an infinity (\<^verbatim>\<open>IntCastingNaNError\<close>, a \<^verbatim>\<open>ValueError\<close>).
\<close>

definition trunc_int :: "real \<Rightarrow> int" where
  "trunc_int a = (if 0 \<le> a then \<lfloor>a\<rfloor> else \<lceil>a\<rceil>)"

fun is_fin :: "fl \<Rightarrow> bool" where
  "is_fin (Fin a) = True"
| "is_fin _ = False"

fun fin_val :: "fl \<Rightarrow> real" where
  "fin_val (Fin a) = a"
| "fin_val _ = 0"

definition astype_int :: "fl list \<Rightarrow> error + int list" where
  "astype_int xs =
     (if list_all is_fin xs then Inr (map (\<lambda>x. trunc_int (fin_val x)) xs)
      else Inl ValueError)"

section \<open>The wallet table\<close>

text \<open>
  One row per wallet. \<open>wcolumns\<close> lists the names of the columns the table has, in
  order; a column that is not listed does not exist, whatever the row holds under its
  name. The float columns (the features, \<^verbatim>\<open>base_risk_score\<close>,
  \<^verbatim>\<open>cluster_risk_adjustment\<close>) are read through \<open>num\<close>; \<^verbatim>\<open>wallet_id\<close> is a string,
  \<^verbatim>\<open>is_anomaly\<close> a boolean and \<^verbatim>\<open>cluster\<close> an integer label.
\<close>

record wrow =
  wallet_id :: string
  num :: "string \<Rightarrow> fl"
  is_anomaly :: bool
  cluster :: nat

record wtable =
  wcolumns :: "string list"
  wrows :: "wrow list"

section \<open>Score Combiner\<close>

text \<open>
  \<^verbatim>\<open>
  def calculate_final_risk_score(df):
      final_scores = df['base_risk_score'].copy()
      final_scores[df['is_anomaly']] *= 1.5 # Anomaly boost
      final_scores *= df['cluster_risk_adjustment'] # Cluster adjustment
      return np.minimum(np.maximum(final_scores, 0), 1000).round(0).astype(int)
  \<close>
\<close>

definition calculate_final_risk_score :: "wtable \<Rightarrow> error + int list" where
  "calculate_final_risk_score df =
     (if ''base_risk_score'' \<notin> set (wcolumns df) then Inl KeyError
      else if ''is_anomaly'' \<notin> set (wcolumns df) then Inl KeyError
      else if ''cluster_risk_adjustment'' \<notin> set (wcolumns df) then Inl KeyError
      else
        let final_scores = map (\<lambda>r. num r ''base_risk_score'') (wrows df);
            final_scores = map2 (\<lambda>s r. if is_anomaly r then fl_mult s (Fin (3 / 2)) else s)
                             final_scores (wrows df);
            final_scores = map2 (\<lambda>s r. fl_mult s (num r ''cluster_risk_adjustment''))
                             final_scores (wrows df)
        in astype_int
             (map (\<lambda>s. fl_round (np_minimum (np_maximum s 0) 1000)) final_scores))"

text \<open>
  The Score Combiner as the specification words it: the product
  base \<times> (1.5 if anomaly else 1) \<times> clusterAdj, clamped once to [0, 1000].
\<close>

definition spec_final_product :: "real \<Rightarrow> bool \<Rightarrow> real \<Rightarrow> real" where
  "spec_final_product b anomaly adj = b * (if anomaly then 3 / 2 else 1) * adj"

definition spec_clamp :: "real \<Rightarrow> real" where
  "spec_clamp x = min (max x 0) 1000"

definition spec_final_score :: "wrow \<Rightarrow> int" where
  "spec_final_score r =
     round_half_even (spec_clamp (spec_final_product
        (fin_val (num r ''base_risk_score'')) (is_anomaly r)
        (fin_val (num r ''cluster_risk_adjustment''))))"

section \<open>Data Loader\<close>

text \<open>
  A raw table as \<^verbatim>\<open>pd.read_csv\<close> returns it: the names of its columns and its rows.
  A cell is missing (\<open>Null\<close>: NaN, NaT or None), a number, a text that is not the
  text of a number, or a point in time (seconds since the Unix epoch).
  \<^verbatim>\<open>read_csv\<close> yields no \<open>Time\<close> cell; \<^verbatim>\<open>pd.to_datetime\<close> makes them.
\<close>

datatype cell = Null | Num real | Text string | Time real

record frame =
  fcolumns :: "string list"
  frows :: "(string \<Rightarrow> cell) list"

definition relevant_columns :: "string list" where
  "relevant_columns =
     [''from'', ''to'', ''value'', ''gas'', ''gasPrice'', ''gasUsed'',
      ''timeStamp'', ''isError'', ''txreceipt_status'', ''functionName'',
      ''wallet_address'', ''protocol_version'', ''methodId'', ''blockNumber'']"

text \<open>
  \<^verbatim>\<open>pd.to_datetime(s, unit='s')\<close>: a number is read as epoch seconds, a missing
  value becomes NaT, and a text that is no number raises \<^verbatim>\<open>ValueError\<close>.
\<close>

fun to_datetime :: "cell \<Rightarrow> error + cell" where
  "to_datetime (Num x) = Inr (Time x)"
| "to_datetime Null = Inr Null"
| "to_datetime (Time t) = Inr (Time t)"
| "to_datetime (Text s) = Inl ValueError"

text \<open>\<^verbatim>\<open>pd.to_numeric(s, errors='coerce')\<close>: what is not a number becomes missing.\<close>

fun to_numeric :: "cell \<Rightarrow> cell" where
  "to_numeric (Num x) = Num x"
| "to_numeric (Time t) = Num (t * 1000000000)"
| "to_numeric _ = Null"

fun fillna :: "string \<Rightarrow> cell \<Rightarrow> cell" where
  "fillna v Null = Text v"
| "fillna v c = c"

text \<open>\<^verbatim>\<open>df[col] = f(df[col])\<close> when the column exists, nothing otherwise.\<close>

definition update_col :: "string \<Rightarrow> (cell \<Rightarrow> cell) \<Rightarrow> frame \<Rightarrow> frame" where
  "update_col col f df =
     (if col \<in> set (fcolumns df)
      then df\<lparr>frows := map (\<lambda>r. r(col := f (r col))) (frows df)\<rparr>
      else df)"

fun sequence :: "(error + 'a) list \<Rightarrow> error + 'a list" where
  "sequence [] = Inr []"
| "sequence (Inl e # xs) = Inl e"
| "sequence (Inr x # xs) = (case sequence xs of Inl e \<Rightarrow> Inl e | Inr ys \<Rightarrow> Inr (x # ys))"

definition convert_timeStamp :: "frame \<Rightarrow> error + frame" where
  "convert_timeStamp df =
     (if ''timeStamp'' \<in> set (fcolumns df)
      then (case sequence (map (\<lambda>r. to_datetime (r ''timeStamp'')) (frows df)) of
              Inl e \<Rightarrow> Inl e
            | Inr ts \<Rightarrow> Inr (df\<lparr>frows := map2 (\<lambda>r t. r(''timeStamp'' := t)) (frows df) ts\<rparr>))
      else Inr df)"

text \<open>\<^verbatim>\<open>df.dropna(subset=[col])\<close>: pandas raises \<^verbatim>\<open>KeyError\<close> for a column the table lacks.\<close>

definition dropna_subset :: "string \<Rightarrow> frame \<Rightarrow> error + frame" where
  "dropna_subset col df =
     (if col \<in> set (fcolumns df)
      then Inr (df\<lparr>frows := filter (\<lambda>r. r col \<noteq> Null) (frows df)\<rparr>)
      else Inl KeyError)"

text \<open>
  \<^verbatim>\<open>
  def load_and_preprocess_data(filepath):
      try:
          df = pd.read_csv(filepath)
      except FileNotFoundError:
          return pd.DataFrame()
      relevant_columns = [...]
      existing_columns = [col for col in relevant_columns if col in df.columns]
      df_clean = df[existing_columns].copy()
      if 'timeStamp' in df_clean.columns:
          df_clean['timeStamp'] = pd.to_datetime(df_clean['timeStamp'], unit='s')
      if 'value' in df_clean.columns:
          df_clean['value'] = pd.to_numeric(df_clean['value'], errors='coerce')
      for col in ['functionName', 'protocol_version']:
          if col in df_clean.columns:
              df_clean[col] = df_clean[col].fillna('unknown')
      if 'methodId' in df_clean.columns:
          df_clean['methodId'] = df_clean['methodId'].fillna('0x00000000')
      for col in ['gas', 'gasPrice', 'gasUsed', 'blockNumber']:
          if col in df_clean.columns:
              df_clean[col] = pd.to_numeric(df_clean[col], errors='coerce')
      df_clean.dropna(subset=['value'], inplace=True)
      return df_clean
  \<close>
  The argument is what \<^verbatim>\<open>read_csv\<close> found: \<open>None\<close> when the file does not exist.
\<close>

definition load_and_preprocess_data :: "frame option \<Rightarrow> error + frame" where
  "load_and_preprocess_data file =
     (case file of
        None \<Rightarrow> Inr \<lparr>fcolumns = [], frows = []\<rparr>
      | Some df \<Rightarrow>
          let existing_columns = filter (\<lambda>col. col \<in> set (fcolumns df)) relevant_columns;
              df_clean = \<lparr>fcolumns = existing_columns,
                          frows = map (\<lambda>r col. if col \<in> set existing_columns then r col else Null)
                                    (frows df)\<rparr>
          in case convert_timeStamp df_clean of
               Inl e \<Rightarrow> Inl e
             | Inr df_clean \<Rightarrow>
                 let df_clean = update_col ''value'' to_numeric df_clean;
                     df_clean = fold (\<lambda>col. update_col col (fillna ''unknown''))
                                  [''functionName'', ''protocol_version''] df_clean;
                     df_clean = update_col ''methodId'' (fillna ''0x00000000'') df_clean;
                     df_clean = fold (\<lambda>col. update_col col to_numeric)
                                  [''gas'', ''gasPrice'', ''gasUsed'', ''blockNumber''] df_clean
                 in dropna_subset ''value'' df_clean)"

section \<open>Feature Engine\<close>

text \<open>
  A cleaned transaction table, typed as the Data Loader leaves it and as the data model
  of the specification describes a TransactionRecord: \<^verbatim>\<open>value\<close> is a number in every
  surviving row (the loader drops the others), \<^verbatim>\<open>functionName\<close> is a string (the
  loader fills the sentinel in), \<^verbatim>\<open>timeStamp\<close> is a point in time (whole epoch
  seconds) and \<^verbatim>\<open>isError\<close> a 0/1 flag; the addresses and the gas fields may be
  missing (\<open>None\<close>). \<open>tcolumns\<close> lists the columns the table has: the code asks for
  them by name, and a field whose column is not listed is never read.
\<close>

record txn =
  t_wallet_address :: "string option"
  t_from :: "string option"
  t_to :: "string option"
  t_value :: real
  t_gasUsed :: "real option"
  t_gasPrice :: "real option"
  t_isError :: real
  t_timeStamp :: int
  t_functionName :: string

record ttable =
  tcolumns :: "string list"
  trows :: "txn list"

subsection \<open>Series operations of pandas\<close>

fun dropna :: "'a option list \<Rightarrow> 'a list" where
  "dropna [] = []"
| "dropna (None # xs) = dropna xs"
| "dropna (Some x # xs) = x # dropna xs"

text \<open>\<^verbatim>\<open>Series.unique()\<close>: the distinct values, in the order of their first appearance.\<close>

definition unique :: "'a list \<Rightarrow> 'a list" where
  "unique xs = rev (remdups (rev xs))"

definition nunique :: "'a list \<Rightarrow> nat" where
  "nunique xs = length (remdups xs)"

text \<open>\<^verbatim>\<open>Series.mean()\<close>, \<^verbatim>\<open>.max()\<close>, \<^verbatim>\<open>.min()\<close> of the values that are not missing: NaN when there is none.\<close>

definition series_mean :: "real list \<Rightarrow> fl" where
  "series_mean xs = (if xs = [] then NaN else Fin (sum_list xs / real (length xs)))"

definition series_max :: "real list \<Rightarrow> fl" where
  "series_max xs = (case xs of [] \<Rightarrow> NaN | x # ys \<Rightarrow> Fin (fold max ys x))"

text \<open>
  \<^verbatim>\<open>Series.std()\<close> is the sample standard deviation (\<^verbatim>\<open>ddof=1\<close>): the squared
  deviations are divided by n - 1, and pandas returns NaN when fewer than two values
  are present.
\<close>

definition series_std :: "real list \<Rightarrow> fl" where
  "series_std xs =
     (if length xs < 2 then NaN
      else let m = sum_list xs / real (length xs)
           in Fin (sqrt (sum_list (map (\<lambda>x. (x - m)\<^sup>2) xs) / real (length xs - 1))))"

subsection \<open>The features of one wallet\<close>

definition wallet_col_of :: "ttable \<Rightarrow> string" where
  "wallet_col_of df =
     (if ''wallet_address'' \<in> set (tcolumns df)
         \<and> list_ex (\<lambda>r. t_wallet_address r \<noteq> None) (trows df)
      then ''wallet_address'' else ''from'')"

text \<open>The cell of the wallet column, which is \<^verbatim>\<open>wallet_address\<close> or \<^verbatim>\<open>from\<close>.\<close>

definition wallet_key :: "string \<Rightarrow> txn \<Rightarrow> string option" where
  "wallet_key wallet_col r =
     (if wallet_col = ''wallet_address'' then t_wallet_address r else t_from r)"

definition wallet_txns_of :: "ttable \<Rightarrow> string \<Rightarrow> string \<Rightarrow> txn list" where
  "wallet_txns_of df wallet_col wallet =
     filter (\<lambda>r. wallet_key wallet_col r = Some wallet) (trows df)"

text \<open>
  \<open>sent_txns\<close> and \<open>received_txns\<close> are \<open>None\<close> for \<^verbatim>\<open>pd.DataFrame()\<close>, the empty
  table without columns that the code takes when \<^verbatim>\<open>from\<close> or \<^verbatim>\<open>to\<close> is absent.
  \<^verbatim>\<open>
  sent_txns = wallet_txns[wallet_txns['from'] == wallet] if 'from' in wallet_txns else pd.DataFrame()
  received_txns = df[df['to'] == wallet] if 'to' in df else pd.DataFrame()
  \<close>
\<close>

definition sent_txns_of :: "ttable \<Rightarrow> string \<Rightarrow> string \<Rightarrow> txn list option" where
  "sent_txns_of df wallet_col wallet =
     (if ''from'' \<in> set (tcolumns df)
      then Some (filter (\<lambda>r. t_from r = Some wallet) (wallet_txns_of df wallet_col wallet))
      else None)"

definition received_txns_of :: "ttable \<Rightarrow> string \<Rightarrow> txn list option" where
  "received_txns_of df wallet =
     (if ''to'' \<in> set (tcolumns df)
      then Some (filter (\<lambda>r. t_to r = Some wallet) (trows df))
      else None)"

text \<open>Lines 69 to 75: the gas features, present only with both gas columns.\<close>

definition gas_features :: "string list \<Rightarrow> txn list \<Rightarrow> (string \<times> fl) list" where
  "gas_features cols wallet_txns =
     (if ''gasUsed'' \<in> set cols \<and> ''gasPrice'' \<in> set cols
      then
        let gas_costs = map (\<lambda>r. case (t_gasUsed r, t_gasPrice r) of
                                   (Some u, Some p) \<Rightarrow> Some (u * p) | _ \<Rightarrow> None) wallet_txns
        in [(''avg_gas_used'', series_mean (dropna (map t_gasUsed wallet_txns))),
            (''total_gas_cost'', Fin (sum_list (dropna gas_costs))),
            (''error_rate'', if ''isError'' \<in> set cols
                              then series_mean (map t_isError wallet_txns) else Fin 0)]
      else [(''avg_gas_used'', Fin 0), (''total_gas_cost'', Fin 0), (''error_rate'', Fin 0)])"

text \<open>
  Lines 76 to 86: the temporal features. Of \<^verbatim>\<open>time_sorted\<close> the code reads the
  \<^verbatim>\<open>timeStamp\<close> column only, so the model sorts the time stamps. \<^verbatim>\<open>diff()\<close> leaves
  a missing first entry, which \<^verbatim>\<open>dropna()\<close> removes; \<^verbatim>\<open>.days\<close> of a time span is the
  number of whole days in it.
\<close>

definition time_diffs_of :: "int list \<Rightarrow> real list" where
  "time_diffs_of ts = map2 (\<lambda>a b. real_of_int (b - a)) (butlast ts) (tl ts)"

definition temporal_features :: "txn list \<Rightarrow> (string \<times> fl) list" where
  "temporal_features wallet_txns =
     (if 1 < length wallet_txns
      then
        let time_sorted = sort (map t_timeStamp wallet_txns);
            time_diffs = time_diffs_of time_sorted;
            activity_span_days =
              (fold max (tl time_sorted) (hd time_sorted)
                 - fold min (tl time_sorted) (hd time_sorted)) div 86400;
            span = max activity_span_days 1
        in [(''avg_time_between_txns_hr'', fl_div (series_mean time_diffs) (Fin 3600)),
            (''activity_span_days'', Fin (real_of_int span)),
            (''transaction_frequency'',
               Fin (real (length wallet_txns) / real_of_int span))]
      else [(''avg_time_between_txns_hr'', Fin 0),
            (''activity_span_days'', Fin 1),
            (''transaction_frequency'', Fin 1)])"

text \<open>
  Lines 90 to 99. \<^verbatim>\<open>value_counts(normalize=True).iloc[0]\<close> is the share of the most
  frequent function name.
\<close>

definition function_features :: "string list \<Rightarrow> txn list \<Rightarrow> (string \<times> fl) list" where
  "function_features cols wallet_txns =
     (if ''functionName'' \<in> set cols
      then
        let names = map t_functionName wallet_txns
        in [(''unique_functions'', Fin (real (nunique names))),
            (''contract_complexity'',
               if names \<noteq> []
               then Fin (1 - real (fold max (map (count_list names) names) 0)
                               / real (length names))
               else Fin 0)]
      else [(''unique_functions'', Fin 0), (''contract_complexity'', Fin 0)])"

text \<open>
  The dictionary \<^verbatim>\<open>features\<close> of one wallet, without its \<^verbatim>\<open>wallet_id\<close> entry, in the
  order in which the code fills it (lines 59 to 99).
\<close>

definition wallet_feature_dict ::
  "string list \<Rightarrow> txn list \<Rightarrow> txn list \<Rightarrow> txn list \<Rightarrow> (string \<times> fl) list" where
  "wallet_feature_dict cols wallet_txns sent_txns received_txns =
     (let unique_recipients =
            (if 0 < length sent_txns then nunique (dropna (map t_to sent_txns)) else 0);
          unique_senders =
            (if 0 < length received_txns then nunique (dropna (map t_from received_txns)) else 0)
      in [(''total_transactions'', Fin (real (length wallet_txns))),
          (''sent_transactions'', Fin (real (length sent_txns))),
          (''received_transactions'', Fin (real (length received_txns))),
          (''send_receive_ratio'',
             Fin (real (length sent_txns) / real (max (length received_txns) 1))),
          (''total_value_sent'', Fin (sum_list (map t_value sent_txns))),
          (''total_value_received'', Fin (sum_list (map t_value received_txns))),
          (''avg_transaction_value'', series_mean (map t_value wallet_txns)),
          (''max_transaction_value'', series_max (map t_value wallet_txns)),
          (''value_std'', series_std (map t_value wallet_txns)),
          (''zero_value_ratio'',
             series_mean (map (\<lambda>r. if t_value r = 0 then 1 else 0) wallet_txns))]
         @ gas_features cols wallet_txns
         @ temporal_features wallet_txns
         @ [(''unique_recipients'', Fin (real unique_recipients)),
            (''unique_senders'', Fin (real unique_senders)),
            (''recipient_concentration'',
               Fin (real (length sent_txns) / real (max unique_recipients 1)))]
         @ function_features cols wallet_txns)"

text \<open>A row of the feature table from the dictionary; a key it lacks is missing.\<close>

definition row_of_dict :: "string \<Rightarrow> (string \<times> fl) list \<Rightarrow> wrow" where
  "row_of_dict wallet features =
     \<lparr>wallet_id = wallet,
      num = (\<lambda>c. case map_of features c of Some v \<Rightarrow> v | None \<Rightarrow> NaN),
      is_anomaly = False, cluster = 0\<rparr>"

text \<open>
  One pass of the loop body (lines 53 to 100) for a wallet that has transactions.
  Reading \<^verbatim>\<open>['value']\<close> of \<^verbatim>\<open>pd.DataFrame()\<close> or of a table without that column
  raises \<^verbatim>\<open>KeyError\<close> (lines 63 to 65), and so does \<^verbatim>\<open>sort_values('timeStamp')\<close>
  without that column (line 77).
\<close>

definition wallet_features :: "ttable \<Rightarrow> string \<Rightarrow> string \<Rightarrow> error + wrow" where
  "wallet_features df wallet_col wallet =
     (let wallet_txns = wallet_txns_of df wallet_col wallet
      in case sent_txns_of df wallet_col wallet of
           None \<Rightarrow> Inl KeyError
         | Some sent_txns \<Rightarrow>
             (case received_txns_of df wallet of
                None \<Rightarrow> Inl KeyError
              | Some received_txns \<Rightarrow>
                  if ''value'' \<notin> set (tcolumns df) then Inl KeyError
                  else if 1 < length wallet_txns \<and> ''timeStamp'' \<notin> set (tcolumns df)
                  then Inl KeyError
                  else Inr (row_of_dict wallet
                         (wallet_feature_dict (tcolumns df) wallet_txns sent_txns received_txns))))"

definition feature_names :: "string list" where
  "feature_names =
     [''total_transactions'', ''sent_transactions'', ''received_transactions'',
      ''send_receive_ratio'', ''total_value_sent'', ''total_value_received'',
      ''avg_transaction_value'', ''max_transaction_value'', ''value_std'',
      ''zero_value_ratio'', ''avg_gas_used'', ''total_gas_cost'', ''error_rate'',
      ''avg_time_between_txns_hr'', ''activity_span_days'', ''transaction_frequency'',
      ''unique_recipients'', ''unique_senders'', ''recipient_concentration'',
      ''unique_functions'', ''contract_complexity'']"

text \<open>
  \<^verbatim>\<open>
  def create_advanced_wallet_features(df):
      wallet_features_list = []
      wallet_col = 'wallet_address' if 'wallet_address' in df.columns \
                   and df['wallet_address'].notna().any() else 'from'
      all_wallets = df[wallet_col].dropna().unique()
      for i, wallet in enumerate(all_wallets):
          wallet_txns = df[df[wallet_col] == wallet]
          ...
          if len(wallet_txns) == 0: continue
          features = {'wallet_id': wallet}
          ...
          wallet_features_list.append(features)
      return pd.DataFrame(wallet_features_list)
  \<close>
  The loop stops at the first wallet that raises. The table made of an empty list has
  no column.
\<close>

definition all_wallets_of :: "ttable \<Rightarrow> string list" where
  "all_wallets_of df = unique (dropna (map (wallet_key (wallet_col_of df)) (trows df)))"

definition create_advanced_wallet_features :: "ttable \<Rightarrow> error + wtable" where
  "create_advanced_wallet_features df =
     (let wallet_col = wallet_col_of df
      in if wallet_col \<notin> set (tcolumns df) then Inl KeyError
         else
           case sequence
                  (map (wallet_features df wallet_col)
                     (filter (\<lambda>wallet. wallet_txns_of df wallet_col wallet \<noteq> [])
                        (all_wallets_of df))) of
             Inl e \<Rightarrow> Inl e
           | Inr wallet_features_list \<Rightarrow>
               Inr \<lparr>wcolumns = (if wallet_features_list = [] then []
                                else ''wallet_id'' # feature_names),
                    wrows = wallet_features_list\<rparr>)"

section \<open>Base Risk Scorer\<close>

text \<open>
  What scikit-learn sees in a column of the wallet table: a float column as it is, the
  boolean \<^verbatim>\<open>is_anomaly\<close> as 0 or 1, the label \<^verbatim>\<open>cluster\<close> as a number.
\<close>

definition cellnum :: "wrow \<Rightarrow> string \<Rightarrow> fl" where
  "cellnum r c =
     (if c = ''is_anomaly'' then Fin (if is_anomaly r then 1 else 0)
      else if c = ''cluster'' then Fin (real (cluster r))
      else num r c)"

text \<open>
  \<^verbatim>\<open>.replace([np.inf, -np.inf], 0)\<close>; from here on a value is a real or missing
  (\<open>None\<close> for NaN).
\<close>

fun replace_inf :: "fl \<Rightarrow> real option" where
  "replace_inf NaN = None"
| "replace_inf PInf = Some 0"
| "replace_inf NInf = Some 0"
| "replace_inf (Fin v) = Some v"

text \<open>
  \<^verbatim>\<open>MinMaxScaler().fit\<close> on one column: \<^verbatim>\<open>data_min_\<close> and \<^verbatim>\<open>data_max_\<close> are taken
  over the values that are not NaN, \<^verbatim>\<open>scale_ = 1 / data_range_\<close> with a range of
  zero replaced by one, \<^verbatim>\<open>min_ = 0 - data_min_ * scale_\<close>. A column of NaN only has
  no statistics. \<^verbatim>\<open>transform\<close> is \<^verbatim>\<open>X * scale_ + min_\<close>, and NaN stays NaN.
\<close>

definition minmax_fit :: "real option list \<Rightarrow> (real \<times> real) option" where
  "minmax_fit xs =
     (case dropna xs of
        [] \<Rightarrow> None
      | v # vs \<Rightarrow>
          let data_min = fold min vs v;
              data_max = fold max vs v;
              data_range = data_max - data_min;
              scale = 1 / (if data_range = 0 then 1 else data_range)
          in Some (scale, 0 - data_min * scale))"

definition minmax_transform :: "(real \<times> real) option \<Rightarrow> real option \<Rightarrow> real option" where
  "minmax_transform st x =
     (case (st, x) of (Some (scale, min_), Some v) \<Rightarrow> Some (v * scale + min_) | _ \<Rightarrow> None)"

definition feature_cols_of :: "wtable \<Rightarrow> string list" where
  "feature_cols_of df = filter (\<lambda>col. col \<noteq> ''wallet_id'') (wcolumns df)"

definition features_col :: "wtable \<Rightarrow> string \<Rightarrow> real option list" where
  "features_col df c = map (\<lambda>r. replace_inf (cellnum r c)) (wrows df)"

text \<open>The cell of \<^verbatim>\<open>features_scaled\<close> in the row of \<open>r\<close> and the column \<open>c\<close>.\<close>

definition features_scaled :: "wtable \<Rightarrow> wrow \<Rightarrow> string \<Rightarrow> real option" where
  "features_scaled df r c =
     minmax_transform (minmax_fit (features_col df c)) (replace_inf (cellnum r c))"

definition risk_components :: "(string \<times> string list \<times> real) list" where
  "risk_components =
     [(''volume_risk'',
         [''total_transactions'', ''total_value_sent'', ''max_transaction_value''], 20 / 100),
      (''behavioral_risk'',
         [''send_receive_ratio'', ''recipient_concentration'', ''transaction_frequency''],
         25 / 100),
      (''technical_risk'', [''avg_gas_used'', ''total_gas_cost'', ''error_rate''], 20 / 100),
      (''temporal_risk'', [''avg_time_between_txns_hr''], 15 / 100),
      (''diversity_risk'',
         [''unique_recipients'', ''unique_senders'', ''unique_functions'',
          ''contract_complexity''], 20 / 100)]"

text \<open>\<^verbatim>\<open>DataFrame.mean(axis=1)\<close> of one row: the mean of the cells that are not NaN.\<close>

definition nan_mean :: "real option list \<Rightarrow> real option" where
  "nan_mean xs =
     (case dropna xs of [] \<Rightarrow> None | v # vs \<Rightarrow> Some (sum_list (v # vs) / real (length (v # vs))))"

text \<open>
  The cell of \<^verbatim>\<open>risk_scores[component]\<close> in the row of \<open>r\<close>:
  \<^verbatim>\<open>
  available_features = [f for f in config['features'] if f in features_scaled.columns]
  if available_features:
      component_score = features_scaled[available_features].mean(axis=1)
      risk_scores[component] = component_score * config['weight']
  else:
      risk_scores[component] = 0
  \<close>
\<close>

definition component_risk :: "wtable \<Rightarrow> wrow \<Rightarrow> string list \<times> real \<Rightarrow> real option" where
  "component_risk df r config =
     (let available_features = filter (\<lambda>f. f \<in> set (feature_cols_of df)) (fst config)
      in if available_features \<noteq> []
         then map_option (\<lambda>component_score. component_score * snd config)
                (nan_mean (map (features_scaled df r) available_features))
         else Some 0)"

text \<open>\<^verbatim>\<open>base_score = risk_scores.sum(axis=1)\<close>: the sum skips NaN.\<close>

definition base_score_of :: "wtable \<Rightarrow> wrow \<Rightarrow> real" where
  "base_score_of df r = sum_list (dropna (map (\<lambda>(component, config). component_risk df r config) risk_components))"

text \<open>
  The mask \<^verbatim>\<open>features_scaled[c] > t\<close> of one adjustment, guarded by
  \<^verbatim>\<open>if c in features_scaled\<close>; NaN is not greater than anything.
\<close>

definition exceeds :: "wtable \<Rightarrow> wrow \<Rightarrow> string \<Rightarrow> real \<Rightarrow> bool" where
  "exceeds df r c t =
     (c \<in> set (feature_cols_of df)
      \<and> (case features_scaled df r c of Some v \<Rightarrow> t < v | None \<Rightarrow> False))"

text \<open>
  \<^verbatim>\<open>
  if 'error_rate' in features_scaled: base_score[features_scaled['error_rate'] > 0.1] *= 1.3
  if 'zero_value_ratio' in features_scaled: base_score[features_scaled['zero_value_ratio'] > 0.5] *= 1.2
  if 'transaction_frequency' in features_scaled: base_score[features_scaled['transaction_frequency'] > 0.95] *= 1.4
  return np.minimum(base_score * 1000, 1000)
  \<close>
\<close>

definition adjusted_score :: "wtable \<Rightarrow> wrow \<Rightarrow> real" where
  "adjusted_score df r =
     (let base_score = base_score_of df r;
          base_score = (if exceeds df r ''error_rate'' (1 / 10)
                        then base_score * (13 / 10) else base_score);
          base_score = (if exceeds df r ''zero_value_ratio'' (5 / 10)
                        then base_score * (12 / 10) else base_score);
          base_score = (if exceeds df r ''transaction_frequency'' (95 / 100)
                        then base_score * (14 / 10) else base_score)
      in min (base_score * 1000) 1000)"

text \<open>
  \<^verbatim>\<open>MinMaxScaler.fit_transform\<close> refuses, with \<^verbatim>\<open>ValueError\<close>, a table with no row
  or with no column. The score is a series of floats, one per row of the table, in
  the order of the rows.
\<close>

definition calculate_advanced_risk_score :: "wtable \<Rightarrow> error + real list" where
  "calculate_advanced_risk_score df =
     (if wrows df = [] \<or> feature_cols_of df = [] then Inl ValueError
      else Inr (map (adjusted_score df) (wrows df)))"

section \<open>ML Refiner\<close>

text \<open>
  The two estimators are scikit-learn's, not this repository's: they are parameters
  of the model. An estimator gets its configuration, the state of NumPy's global
  random generator (which scikit-learn draws from when \<^verbatim>\<open>random_state\<close> is
  \<^verbatim>\<open>None\<close>) and the matrix, a list of rows; it returns one label per row, or raises.
\<close>

record iforest_config =
  contamination :: real
  if_random_state :: "nat option"
  n_estimators :: nat

record kmeans_config =
  n_clusters :: nat
  km_random_state :: "nat option"
  n_init :: nat

type_synonym 'g iforest = "iforest_config \<Rightarrow> 'g \<Rightarrow> real list list \<Rightarrow> error + int list"
type_synonym 'g kmeans = "kmeans_config \<Rightarrow> 'g \<Rightarrow> real list list \<Rightarrow> error + nat list"

text \<open>\<^verbatim>\<open>.fillna(0).replace([np.inf, -np.inf], 0)\<close>\<close>

fun fill_zero :: "fl \<Rightarrow> real" where
  "fill_zero (Fin v) = v"
| "fill_zero _ = 0"

text \<open>
  \<^verbatim>\<open>StandardScaler().fit_transform\<close>: each column minus its mean, divided by its
  population standard deviation, a deviation of zero replaced by one; \<^verbatim>\<open>ValueError\<close>
  for a matrix with no row or no column.
\<close>

definition standard_scale_col :: "real list \<Rightarrow> real list" where
  "standard_scale_col xs =
     (let n = real (length xs);
          mean = sum_list xs / n;
          var = sum_list (map (\<lambda>x. (x - mean)\<^sup>2) xs) / n;
          scale = (if sqrt var = 0 then 1 else sqrt var)
      in map (\<lambda>x. (x - mean) / scale) xs)"

definition feature_cols_anomaly_of :: "wtable \<Rightarrow> string list" where
  "feature_cols_anomaly_of df =
     filter (\<lambda>col. col \<notin> set [''wallet_id'', ''base_risk_score'']) (wcolumns df)"

definition X_scaled_of :: "wtable \<Rightarrow> error + real list list" where
  "X_scaled_of df =
     (let feature_cols_anomaly = feature_cols_anomaly_of df;
          X_cols = map (\<lambda>c. map (\<lambda>r. fill_zero (cellnum r c)) (wrows df)) feature_cols_anomaly
      in if wrows df = [] \<or> feature_cols_anomaly = [] then Inl ValueError
         else Inr (transpose (map standard_scale_col X_cols)))"

text \<open>\<^verbatim>\<open>Series.mean()\<close> of a float column: NaN is skipped, and the mean of nothing is NaN.\<close>

definition fl_mean :: "fl list \<Rightarrow> fl" where
  "fl_mean xs =
     (let vs = filter (\<lambda>x. x \<noteq> NaN) xs
      in if vs = [] then NaN else fl_div (fold fl_add vs (Fin 0)) (Fin (real (length vs))))"

text \<open>\<^verbatim>\<open>df[name] = values\<close> adds the column when the table does not have it yet.\<close>

definition add_col :: "string \<Rightarrow> string list \<Rightarrow> string list" where
  "add_col c cols = (if c \<in> set cols then cols else cols @ [c])"

text \<open>
  \<^verbatim>\<open>
  cluster_risk_adj = df.groupby('cluster')['base_risk_score'].mean() / df['base_risk_score'].mean()
  df['cluster_risk_adjustment'] = df['cluster'].map(cluster_risk_adj)
  \<close>
  for the wallets \<open>rows\<close>, whose \<open>cluster\<close> is already assigned.
\<close>

definition cluster_mean :: "wrow list \<Rightarrow> nat \<Rightarrow> fl" where
  "cluster_mean rows k =
     fl_mean (map (\<lambda>r. num r ''base_risk_score'') (filter (\<lambda>r. cluster r = k) rows))"

definition cluster_risk_adj :: "wrow list \<Rightarrow> nat \<Rightarrow> fl" where
  "cluster_risk_adj rows k =
     fl_div (cluster_mean rows k) (fl_mean (map (\<lambda>r. num r ''base_risk_score'') rows))"

text \<open>
  \<^verbatim>\<open>
  def apply_ml_refinements(df):
      feature_cols_anomaly = [col for col in df.columns if col not in ['wallet_id', 'base_risk_score']]
      X = df[feature_cols_anomaly].fillna(0).replace([np.inf, -np.inf], 0)
      X_scaled = StandardScaler().fit_transform(X)
      iso_forest = IsolationForest(contamination=0.05, random_state=42, n_estimators=100)
      df['is_anomaly'] = (iso_forest.fit_predict(X_scaled) == -1)
      kmeans = KMeans(n_clusters=5, random_state=42, n_init=10)
      df['cluster'] = kmeans.fit_predict(X_scaled)
      cluster_risk_adj = df.groupby('cluster')['base_risk_score'].mean() / df['base_risk_score'].mean()
      df['cluster_risk_adjustment'] = df['cluster'].map(cluster_risk_adj)
      return df
  \<close>
  Assigning a column whose length is not the number of rows raises \<^verbatim>\<open>ValueError\<close>;
  grouping by \<^verbatim>\<open>base_risk_score\<close> without that column raises \<^verbatim>\<open>KeyError\<close>.
\<close>

definition iso_forest_params :: iforest_config where
  "iso_forest_params =
     \<lparr>contamination = 5 / 100, if_random_state = Some 42, n_estimators = 100\<rparr>"

definition kmeans_params :: kmeans_config where
  "kmeans_params = \<lparr>n_clusters = 5, km_random_state = Some 42, n_init = 10\<rparr>"

definition apply_ml_refinements ::
  "'g iforest \<Rightarrow> 'g kmeans \<Rightarrow> 'g \<Rightarrow> wtable \<Rightarrow> error + wtable" where
  "apply_ml_refinements IsolationForest KMeans rng df =
     (case X_scaled_of df of
        Inl e \<Rightarrow> Inl e
      | Inr X_scaled \<Rightarrow>
          (case IsolationForest iso_forest_params rng X_scaled of
             Inl e \<Rightarrow> Inl e
           | Inr iso_labels \<Rightarrow>
               if length iso_labels \<noteq> length (wrows df) then Inl ValueError
               else
                 (case KMeans kmeans_params rng X_scaled of
                    Inl e \<Rightarrow> Inl e
                  | Inr km_labels \<Rightarrow>
                      if length km_labels \<noteq> length (wrows df) then Inl ValueError
                      else if ''base_risk_score'' \<notin> set (wcolumns df) then Inl KeyError
                      else
                        let rows = map2 (\<lambda>r (a, k). r\<lparr>is_anomaly := (a = - 1), cluster := k\<rparr>)
                                     (wrows df) (zip iso_labels km_labels);
                            rows = map (\<lambda>r. r\<lparr>num := (num r)(''cluster_risk_adjustment'' :=
                                                  cluster_risk_adj rows (cluster r))\<rparr>) rows
                        in Inr \<lparr>wcolumns = add_col ''cluster_risk_adjustment''
                                            (add_col ''cluster'' (add_col ''is_anomaly'' (wcolumns df))),
                               wrows = rows\<rparr>)))"

section \<open>Derived notions\<close>

text \<open>
  Names for parts of the results, used to state the properties below: the transactions
  a wallet sent and received, the row the Feature Engine builds for a wallet, and one
  column of a result.
\<close>

definition sent_of :: "ttable \<Rightarrow> string \<Rightarrow> txn list" where
  "sent_of df wallet =
     filter (\<lambda>r. t_from r = Some wallet) (wallet_txns_of df (wallet_col_of df) wallet)"

definition received_of :: "ttable \<Rightarrow> string \<Rightarrow> txn list" where
  "received_of df wallet = filter (\<lambda>r. t_to r = Some wallet) (trows df)"

definition wallet_row :: "ttable \<Rightarrow> string \<Rightarrow> wrow" where
  "wallet_row df wallet =
     row_of_dict wallet
       (wallet_feature_dict (tcolumns df) (wallet_txns_of df (wallet_col_of df) wallet)
          (sent_of df wallet) (received_of df wallet))"

definition fin_entry :: "string \<times> fl \<Rightarrow> bool" where
  "fin_entry kv = (fst kv = ''value_std'' \<or> fst kv = ''avg_gas_used'' \<or> is_fin (snd kv))"

definition feature_column :: "string \<Rightarrow> error + wtable \<Rightarrow> error + fl list" where
  "feature_column c res =
     (case res of Inl e \<Rightarrow> Inl e | Inr ft \<Rightarrow> Inr (map (\<lambda>r. num r c) (wrows ft)))"

text \<open>
  The boost of the Base Risk Scorer as the specification words it: the three factors,
  each present when its condition holds, multiplied.
\<close>

definition spec_boost :: "wtable \<Rightarrow> wrow \<Rightarrow> real" where
  "spec_boost df r =
     (if exceeds df r ''error_rate'' (1 / 10) then 13 / 10 else 1)
     * (if exceeds df r ''zero_value_ratio'' (5 / 10) then 12 / 10 else 1)
     * (if exceeds df r ''transaction_frequency'' (95 / 100) then 14 / 10 else 1)"

text \<open>The columns the score reads: those of the five components, and \<^verbatim>\<open>zero_value_ratio\<close>.\<close>

definition score_columns :: "string list" where
  "score_columns =
     concat (map (\<lambda>c. fst (snd c)) risk_components) @ [''zero_value_ratio'']"

text \<open>
  The adjustment of the ML Refiner as the specification words it: the mean
  \<^verbatim>\<open>base_risk_score\<close> of the wallet's cluster over the mean of the population.
\<close>

definition base_of :: "wrow \<Rightarrow> real" where
  "base_of r = fin_val (num r ''base_risk_score'')"

definition mean_base :: "wrow list \<Rightarrow> real" where
  "mean_base rs = sum_list (map base_of rs) / real (length rs)"

definition spec_cluster_adj :: "wrow list \<Rightarrow> wrow \<Rightarrow> real" where
  "spec_cluster_adj rs r =
     mean_base (filter (\<lambda>m. cluster m = cluster r) rs) / mean_base rs"

text \<open>The rows \<^verbatim>\<open>apply_ml_refinements\<close> returns for the labels \<open>a\<close> and \<open>k\<close>.\<close>

definition refined_rows :: "wrow list \<Rightarrow> int list \<Rightarrow> nat list \<Rightarrow> wrow list" where
  "refined_rows rs a k =
     (let rows = map2 (\<lambda>r (a, k). r\<lparr>is_anomaly := (a = - 1), cluster := k\<rparr>) rs (zip a k)
      in map (\<lambda>r. r\<lparr>num := (num r)(''cluster_risk_adjustment'' :=
                                  cluster_risk_adj rows (cluster r))\<rparr>) rows)"

definition labelled_rows :: "wrow list \<Rightarrow> int list \<Rightarrow> nat list \<Rightarrow> wrow list" where
  "labelled_rows rs a k =
     map2 (\<lambda>r (a, k). r\<lparr>is_anomaly := (a = - 1), cluster := k\<rparr>) rs (zip a k)"

section \<open>Sample tables\<close>

text \<open>Concrete tables on which the theorems below are instantiated.\<close>

definition demo_scored :: wtable where
  "demo_scored =
     \<lparr>wcolumns = [''wallet_id'', ''base_risk_score'', ''is_anomaly'', ''cluster'',
                  ''cluster_risk_adjustment''],
      wrows =
        [\<lparr>wallet_id = ''0xa'',
          num = (\<lambda>_. NaN)(''base_risk_score'' := Fin 401,
                            ''cluster_risk_adjustment'' := Fin (1 / 2)),
          is_anomaly = False, cluster = 0\<rparr>,
         \<lparr>wallet_id = ''0xb'',
          num = (\<lambda>_. NaN)(''base_risk_score'' := Fin 800,
                            ''cluster_risk_adjustment'' := Fin (5 / 4)),
          is_anomaly = True, cluster = 1\<rparr>,
         \<lparr>wallet_id = ''0xc'',
          num = (\<lambda>_. NaN)(''base_risk_score'' := Fin 3,
                            ''cluster_risk_adjustment'' := Fin (1 / 2)),
          is_anomaly = False, cluster = 0\<rparr>]\<rparr>"

definition demo_raw_no_value :: frame where
  "demo_raw_no_value =
     \<lparr>fcolumns = [''from'', ''to'', ''timeStamp'', ''gasUsed''],
      frows = [(\<lambda>_. Null)(''from'' := Text ''0xa'', ''to'' := Text ''0xb'',
                 ''timeStamp'' := Num 1600000000, ''gasUsed'' := Num 21000)]\<rparr>"

definition demo_txns :: ttable where
  "demo_txns =
     \<lparr>tcolumns = [''from'', ''to'', ''value'', ''gasUsed'', ''gasPrice'', ''isError'',
                  ''timeStamp'', ''functionName'', ''wallet_address''],
      trows =
        [\<lparr>t_wallet_address = Some ''0xa'', t_from = Some ''0xa'', t_to = Some ''0xd'',
          t_value = 5, t_gasUsed = Some 21000, t_gasPrice = Some 2, t_isError = 0,
          t_timeStamp = 1600000000, t_functionName = ''mint''\<rparr>,
         \<lparr>t_wallet_address = Some ''0xa'', t_from = Some ''0xa'', t_to = Some ''0xc'',
          t_value = 0, t_gasUsed = None, t_gasPrice = Some 3, t_isError = 1,
          t_timeStamp = 1600200000, t_functionName = ''redeem''\<rparr>,
         \<lparr>t_wallet_address = Some ''0xb'', t_from = Some ''0xb'', t_to = Some ''0xa'',
          t_value = 7, t_gasUsed = None, t_gasPrice = None, t_isError = 0,
          t_timeStamp = 1600000500, t_functionName = ''mint''\<rparr>]\<rparr>"

definition demo_single :: ttable where
  "demo_single =
     \<lparr>tcolumns = [''from'', ''to'', ''value'', ''timeStamp''],
      trows =
        [\<lparr>t_wallet_address = None, t_from = Some ''0xa'', t_to = Some ''0xb'',
          t_value = 5, t_gasUsed = None, t_gasPrice = None, t_isError = 0,
          t_timeStamp = 1600000000, t_functionName = ''unknown''\<rparr>]\<rparr>"

definition demo_wallet_a :: wrow where
  "demo_wallet_a =
     \<lparr>wallet_id = ''0xa'',
      num = (\<lambda>_. NaN)(''total_transactions'' := Fin 1, ''error_rate'' := Fin 0,
              ''zero_value_ratio'' := Fin 0, ''transaction_frequency'' := Fin 1),
      is_anomaly = False, cluster = 0\<rparr>"

definition demo_wallet_b :: wrow where
  "demo_wallet_b =
     \<lparr>wallet_id = ''0xb'',
      num = (\<lambda>_. NaN)(''total_transactions'' := Fin 3, ''error_rate'' := Fin (1 / 2),
              ''zero_value_ratio'' := Fin 1, ''transaction_frequency'' := Fin 1,
              ''value_std'' := Fin 2),
      is_anomaly = False, cluster = 0\<rparr>"

definition demo_wallet_c :: wrow where
  "demo_wallet_c =
     \<lparr>wallet_id = ''0xc'',
      num = (\<lambda>_. NaN)(''total_transactions'' := Fin 5, ''error_rate'' := Fin 1,
              ''zero_value_ratio'' := Fin 0, ''transaction_frequency'' := Fin 3,
              ''value_std'' := Fin 4),
      is_anomaly = False, cluster = 0\<rparr>"

definition demo_features :: wtable where
  "demo_features =
     \<lparr>wcolumns = [''wallet_id'', ''total_transactions'', ''error_rate'', ''zero_value_ratio'',
                  ''transaction_frequency'', ''value_std''],
      wrows = [demo_wallet_a, demo_wallet_b, demo_wallet_c]\<rparr>"

definition demo_features_other :: wtable where
  "demo_features_other =
     \<lparr>wcolumns = [''wallet_id'', ''total_transactions'', ''error_rate'', ''zero_value_ratio'',
                  ''transaction_frequency'', ''value_std''],
      wrows = [demo_wallet_a\<lparr>num := (num demo_wallet_a)(''value_std'' := Fin 7)\<rparr>,
               demo_wallet_b\<lparr>num := (num demo_wallet_b)(''value_std'' := PInf)\<rparr>,
               demo_wallet_c\<lparr>num := (num demo_wallet_c)(''value_std'' := NaN,
                                ''activity_span_days'' := Fin 9)\<rparr>]\<rparr>"

text \<open>
  Two stand-ins for scikit-learn's estimators, to instantiate the theorems of the ML
  Refiner: they label the rows by position, from the seed when \<^verbatim>\<open>random_state\<close> is
  given and from the state of the global generator when it is \<^verbatim>\<open>None\<close>. On five
  wallets with distinct features the second gives every wallet a cluster of its own,
  as k-means with five clusters does.
\<close>

definition demo_iforest :: "int iforest" where
  "demo_iforest config rng X =
     (let seed = (case if_random_state config of Some s \<Rightarrow> int s | None \<Rightarrow> rng)
      in Inr (map (\<lambda>i. if int i = seed mod int (length X) then - 1 else 1) [0..<length X]))"

definition demo_kmeans :: "int kmeans" where
  "demo_kmeans config rng X =
     (let seed = (case km_random_state config of Some s \<Rightarrow> s | None \<Rightarrow> nat rng)
      in Inr (map (\<lambda>i. (i + seed) mod n_clusters config) [0..<length X]))"

definition demo_scored_row :: "string \<Rightarrow> real \<Rightarrow> real \<Rightarrow> wrow" where
  "demo_scored_row w t b =
     \<lparr>wallet_id = w,
      num = (\<lambda>_. NaN)(''total_transactions'' := Fin t, ''base_risk_score'' := Fin b),
      is_anomaly = False, cluster = 0\<rparr>"

definition demo_mixed_scores :: wtable where
  "demo_mixed_scores =
     \<lparr>wcolumns = [''wallet_id'', ''total_transactions'', ''base_risk_score''],
      wrows = [demo_scored_row ''0xa'' 1 0, demo_scored_row ''0xb'' 2 100,
               demo_scored_row ''0xc'' 3 200, demo_scored_row ''0xd'' 4 300,
               demo_scored_row ''0xe'' 5 400]\<rparr>"

definition demo_zero_scores :: wtable where
  "demo_zero_scores =
     \<lparr>wcolumns = [''wallet_id'', ''total_transactions'', ''base_risk_score''],
      wrows = [demo_scored_row ''0xa'' 1 0, demo_scored_row ''0xb'' 2 0,
               demo_scored_row ''0xc'' 3 0, demo_scored_row ''0xd'' 4 0,
               demo_scored_row ''0xe'' 5 0]\<rparr>"

section \<open>Properties of the Score Combiner\<close>

lemma round_half_even_near: "\<bar>of_int (round_half_even x) - x\<bar> \<le> 1 / 2"
  unfolding round_half_even_def Let_def by (auto; linarith)

lemma round_half_even_mono_int:
  "of_int k \<le> x \<Longrightarrow> k \<le> round_half_even x"
  "x \<le> of_int k \<Longrightarrow> round_half_even x \<le> k"
  unfolding round_half_even_def Let_def by (auto; linarith)+

lemma trunc_int_of_int [simp]: "trunc_int (of_int k) = k"
  by (simp add: trunc_int_def)

lemma zip_map_same: "zip (map g xs) xs = map (\<lambda>x. (g x, x)) xs"
  by (induction xs) auto

lemma spec_clamp_bounds: "0 \<le> spec_clamp x \<and> spec_clamp x \<le> 1000"
  by (simp add: spec_clamp_def)

lemma round_clamp_bounds:
  "0 \<le> round_half_even (spec_clamp x) \<and> round_half_even (spec_clamp x) \<le> 1000"
  using round_half_even_mono_int(1)[of 0 "spec_clamp x"]
        round_half_even_mono_int(2)[of "spec_clamp x" 1000] spec_clamp_bounds[of x]
  by simp

lemma final_cell:
  assumes "is_fin (num r ''base_risk_score'')" "is_fin (num r ''cluster_risk_adjustment'')"
  shows "fl_round (np_minimum (np_maximum
           (fl_mult (if is_anomaly r then fl_mult (num r ''base_risk_score'') (Fin (3 / 2))
                     else num r ''base_risk_score'')
              (num r ''cluster_risk_adjustment'')) 0) 1000)
         = Fin (of_int (spec_final_score r))"
proof -
  obtain b where b: "num r ''base_risk_score'' = Fin b"
    using assms(1) by (cases "num r ''base_risk_score''") auto
  obtain a where a: "num r ''cluster_risk_adjustment'' = Fin a"
    using assms(2) by (cases "num r ''cluster_risk_adjustment''") auto
  show ?thesis
    by (simp add: a b spec_final_score_def spec_clamp_def spec_final_product_def)
qed

text \<open>
  C1. On a table that has the three columns, with a finite number in
  \<^verbatim>\<open>base_risk_score\<close> and \<^verbatim>\<open>cluster_risk_adjustment\<close> of every row,
  \<^verbatim>\<open>calculate_final_risk_score\<close> returns, and the score of every wallet is the integer
  nearest to base \<times> (1.5 if anomaly else 1) \<times> clusterAdj clamped once to [0, 1000]:
  it lies in [0, 1000] and is at most one half away from the clamped product.
\<close>

theorem calculate_final_risk_score_correct:
  assumes "''base_risk_score'' \<in> set (wcolumns df)"
    and "''is_anomaly'' \<in> set (wcolumns df)"
    and "''cluster_risk_adjustment'' \<in> set (wcolumns df)"
    and fin: "\<forall>r \<in> set (wrows df). is_fin (num r ''base_risk_score'')
                \<and> is_fin (num r ''cluster_risk_adjustment'')"
  shows "calculate_final_risk_score df = Inr (map spec_final_score (wrows df))
         \<and> (\<forall>r \<in> set (wrows df). 0 \<le> spec_final_score r \<and> spec_final_score r \<le> 1000
              \<and> \<bar>of_int (spec_final_score r) - spec_clamp (spec_final_product
                    (fin_val (num r ''base_risk_score'')) (is_anomaly r)
                    (fin_val (num r ''cluster_risk_adjustment'')))\<bar> \<le> 1 / 2)"
proof -
  let ?cell = "\<lambda>r. fl_round (np_minimum (np_maximum
           (fl_mult (if is_anomaly r then fl_mult (num r ''base_risk_score'') (Fin (3 / 2))
                     else num r ''base_risk_score'')
              (num r ''cluster_risk_adjustment'')) 0) 1000)"
  have cells: "map ?cell (wrows df) = map (\<lambda>r. Fin (of_int (spec_final_score r))) (wrows df)"
    using fin by (intro map_cong refl final_cell) auto
  have "calculate_final_risk_score df = astype_int (map ?cell (wrows df))"
    using assms(1-3)
    by (simp add: calculate_final_risk_score_def Let_def zip_map_same o_def)
  also have "\<dots> = Inr (map spec_final_score (wrows df))"
    unfolding cells by (simp add: astype_int_def list_all_iff o_def)
  finally have 1: "calculate_final_risk_score df = Inr (map spec_final_score (wrows df))" .
  have 2: "0 \<le> spec_final_score r \<and> spec_final_score r \<le> 1000
              \<and> \<bar>of_int (spec_final_score r) - spec_clamp (spec_final_product
                    (fin_val (num r ''base_risk_score'')) (is_anomaly r)
                    (fin_val (num r ''cluster_risk_adjustment'')))\<bar> \<le> 1 / 2" for r
    unfolding spec_final_score_def
    using round_clamp_bounds round_half_even_near by blast
  show ?thesis using 1 2 by blast
qed

lemma round_half_even_samples:
  "round_half_even (401 / 2) = 200" "round_half_even (3 / 2) = 2"
  "round_half_even 1000 = 1000"
  by (simp_all add: round_half_even_def Let_def)

theorem calculate_final_risk_score_correct_witness:
  "calculate_final_risk_score demo_scored = Inr [200, 1000, 2]"
proof -
  have c: "''base_risk_score'' \<in> set (wcolumns demo_scored)"
    "''is_anomaly'' \<in> set (wcolumns demo_scored)"
    "''cluster_risk_adjustment'' \<in> set (wcolumns demo_scored)"
    by (simp_all add: demo_scored_def)
  have f: "\<forall>r \<in> set (wrows demo_scored). is_fin (num r ''base_risk_score'')
                \<and> is_fin (num r ''cluster_risk_adjustment'')"
    by (simp add: demo_scored_def)
  have "calculate_final_risk_score demo_scored
          = Inr (map spec_final_score (wrows demo_scored))"
    using calculate_final_risk_score_correct[OF c f] by (rule conjunct1)
  also have "map spec_final_score (wrows demo_scored) = [200, 1000, 2]"
    by (simp add: demo_scored_def spec_final_score_def spec_clamp_def
          spec_final_product_def round_half_even_samples)
  finally show ?thesis .
qed

section \<open>Properties of the Data Loader\<close>

lemma fcolumns_update_col [simp]: "fcolumns (update_col col f df) = fcolumns df"
  by (simp add: update_col_def)

lemma convert_timeStamp_cols:
  "convert_timeStamp df = Inr df' \<Longrightarrow> fcolumns df' = fcolumns df"
  by (auto simp: convert_timeStamp_def split: if_splits sum.splits)

lemma sequence_map_Inr:
  "(\<And>x. x \<in> set xs \<Longrightarrow> \<exists>y. f x = Inr y) \<Longrightarrow> \<exists>ys. sequence (map f xs) = Inr ys"
proof (induction xs)
  case Nil
  then show ?case by simp
next
  case (Cons x xs)
  then obtain y where y: "f x = Inr y" by auto
  from Cons obtain ys where "sequence (map f xs) = Inr ys" by auto
  with y show ?case by simp
qed

lemma to_datetime_Inr: "(\<forall>s. c \<noteq> Text s) \<Longrightarrow> \<exists>y. to_datetime c = Inr y"
  by (cases c) auto

lemma convert_timeStamp_Inr:
  "\<exists>ts. sequence (map (\<lambda>r. to_datetime (r ''timeStamp'')) (frows d)) = Inr ts
   \<Longrightarrow> \<exists>d'. convert_timeStamp d = Inr d'"
  by (auto simp: convert_timeStamp_def)

text \<open>
  With a \<^verbatim>\<open>value\<close> column, and no text among the time stamps, the loader returns
  a table whatever other columns are absent.
\<close>

lemma load_with_value_returns:
  assumes v: "''value'' \<in> set (fcolumns df)"
    and t: "\<forall>r \<in> set (frows df). \<forall>s. r ''timeStamp'' \<noteq> Text s"
  shows "\<exists>out. load_and_preprocess_data (Some df) = Inr out"
proof -
  let ?ex = "filter (\<lambda>col. col \<in> set (fcolumns df)) relevant_columns"
  let ?clean = "\<lparr>fcolumns = ?ex,
      frows = map (\<lambda>r col. if col \<in> set ?ex then r col else Null) (frows df)\<rparr>"
  have "\<exists>ts. sequence (map (\<lambda>r. to_datetime (r ''timeStamp'')) (frows ?clean)) = Inr ts"
    using t by (intro sequence_map_Inr to_datetime_Inr) (auto split: if_splits)
  then obtain df1 where df1: "convert_timeStamp ?clean = Inr df1"
    using convert_timeStamp_Inr by blast
  have "''value'' \<in> set (fcolumns df1)"
    unfolding convert_timeStamp_cols[OF df1, simplified] using v
    by (simp add: relevant_columns_def)
  then show ?thesis
    unfolding load_and_preprocess_data_def Let_def option.case df1 sum.case
    by (simp add: dropna_subset_def)
qed

text \<open>Without a \<^verbatim>\<open>value\<close> column the loader never returns a table.\<close>

lemma load_no_value_never_returns:
  assumes "''value'' \<notin> set (fcolumns df)"
  shows "load_and_preprocess_data (Some df) \<noteq> Inr out"
proof -
  let ?ex = "filter (\<lambda>col. col \<in> set (fcolumns df)) relevant_columns"
  have nv: "''value'' \<notin> set ?ex" using assms by simp
  show ?thesis
    using nv
    by (auto simp: load_and_preprocess_data_def Let_def dropna_subset_def
          dest!: convert_timeStamp_cols split: sum.splits)
qed

text \<open>
  C2. The claim is that the loader completes on every table that lacks a canonical
  column, the \<^verbatim>\<open>value\<close> column included. The conversions are guarded by
  \<^verbatim>\<open>if col in df_clean.columns\<close>, but the final
  \<^verbatim>\<open>df_clean.dropna(subset=['value'])\<close> is not: on a table with the columns
  \<^verbatim>\<open>from\<close>, \<^verbatim>\<open>to\<close>, \<^verbatim>\<open>timeStamp\<close>, \<^verbatim>\<open>gasUsed\<close> and no \<^verbatim>\<open>value\<close> the loader
  raises \<^verbatim>\<open>KeyError\<close>.
\<close>

theorem load_without_value_raises:
  "load_and_preprocess_data (Some demo_raw_no_value) = Inl KeyError"
  by (simp add: load_and_preprocess_data_def demo_raw_no_value_def relevant_columns_def
        convert_timeStamp_def update_col_def dropna_subset_def Let_def)

section \<open>Properties of the Feature Engine\<close>

lemma set_dropna: "set (dropna xs) = {x. Some x \<in> set xs}"
  by (induction xs rule: dropna.induct) auto

lemma set_unique [simp]: "set (unique xs) = set xs"
  by (simp add: unique_def)

lemma distinct_unique [simp]: "distinct (unique xs)"
  by (simp add: unique_def)

lemma sequence_map_Inr_eq: "sequence (map (\<lambda>x. Inr (g x)) xs) = Inr (map g xs)"
  by (induction xs) auto

lemma wallet_txns_nonempty:
  "w \<in> set (all_wallets_of df) \<Longrightarrow> wallet_txns_of df (wallet_col_of df) w \<noteq> []"
  by (auto simp: all_wallets_of_def set_dropna wallet_txns_of_def filter_empty_conv)

lemma wallet_col_present:
  "''from'' \<in> set (tcolumns df) \<Longrightarrow> wallet_col_of df \<in> set (tcolumns df)"
  by (simp add: wallet_col_of_def)

lemma wallet_features_Inr:
  assumes "''from'' \<in> set (tcolumns df)" "''to'' \<in> set (tcolumns df)"
    "''value'' \<in> set (tcolumns df)" "''timeStamp'' \<in> set (tcolumns df)"
  shows "wallet_features df (wallet_col_of df) w = Inr (wallet_row df w)"
  using assms
  by (simp add: wallet_features_def sent_txns_of_def received_txns_of_def wallet_row_def
        sent_of_def received_of_def Let_def)

lemma create_features_returns:
  assumes "''from'' \<in> set (tcolumns df)" "''to'' \<in> set (tcolumns df)"
    "''value'' \<in> set (tcolumns df)" "''timeStamp'' \<in> set (tcolumns df)"
  shows "create_advanced_wallet_features df =
           Inr \<lparr>wcolumns = (if all_wallets_of df = [] then [] else ''wallet_id'' # feature_names),
                wrows = map (wallet_row df) (all_wallets_of df)\<rparr>"
proof -
  have f: "filter (\<lambda>wallet. wallet_txns_of df (wallet_col_of df) wallet \<noteq> []) (all_wallets_of df)
             = all_wallets_of df"
    by (simp add: wallet_txns_nonempty)
  have m: "map (wallet_features df (wallet_col_of df)) (all_wallets_of df)
             = map (\<lambda>w. Inr (wallet_row df w)) (all_wallets_of df)"
    using wallet_features_Inr[OF assms] by simp
  show ?thesis
    unfolding create_advanced_wallet_features_def Let_def f m sequence_map_Inr_eq
    using wallet_col_present[OF assms(1)] by simp
qed

lemma wallet_id_wallet_row [simp]: "wallet_id (wallet_row df w) = w"
  by (simp add: wallet_row_def row_of_dict_def)

lemma map_of_append_skip: "k \<notin> set (map fst xs) \<Longrightarrow> map_of (xs @ ys) k = map_of ys k"
  by (induction xs) auto

lemma map_of_append_hit: "k \<in> set (map fst xs) \<Longrightarrow> map_of (xs @ ys) k = map_of xs k"
  by (induction xs) auto

lemma gas_features_keys:
  "map fst (gas_features cols wt) = [''avg_gas_used'', ''total_gas_cost'', ''error_rate'']"
  by (simp add: gas_features_def Let_def)

lemma temporal_features_keys:
  "map fst (temporal_features wt)
     = [''avg_time_between_txns_hr'', ''activity_span_days'', ''transaction_frequency'']"
  by (simp add: temporal_features_def Let_def)

lemma dict_temporal:
  "map_of (wallet_feature_dict cols wt st rt) ''avg_time_between_txns_hr''
     = map_of (temporal_features wt) ''avg_time_between_txns_hr''"
  "map_of (wallet_feature_dict cols wt st rt) ''activity_span_days''
     = map_of (temporal_features wt) ''activity_span_days''"
  "map_of (wallet_feature_dict cols wt st rt) ''transaction_frequency''
     = map_of (temporal_features wt) ''transaction_frequency''"
  unfolding wallet_feature_dict_def Let_def
  by (simp_all add: map_of_append_skip map_of_append_hit gas_features_keys
        temporal_features_keys del: map_of_append)

lemma num_counts:
  "num (wallet_row df w) ''total_transactions''
     = Fin (real (length (wallet_txns_of df (wallet_col_of df) w)))"
  "num (wallet_row df w) ''sent_transactions'' = Fin (real (length (sent_of df w)))"
  "num (wallet_row df w) ''received_transactions'' = Fin (real (length (received_of df w)))"
  "num (wallet_row df w) ''send_receive_ratio''
     = Fin (real (length (sent_of df w)) / real (max (length (received_of df w)) 1))"
  by (simp_all add: wallet_row_def row_of_dict_def wallet_feature_dict_def Let_def)

lemma received_none:
  "Some w \<notin> set (map t_to (trows df)) \<Longrightarrow> received_of df w = []"
  by (force simp: received_of_def filter_empty_conv image_iff)

lemma received_row:
  "num (wallet_row df w) ''received_transactions''
                   = Fin (real (length (filter (\<lambda>t. t_to t = Some w) (trows df))))
                 \<and> (\<exists>sent received.
                       num (wallet_row df w) ''sent_transactions'' = Fin (real sent)
                     \<and> num (wallet_row df w) ''received_transactions'' = Fin (real received)
                     \<and> num (wallet_row df w) ''send_receive_ratio''
                          = Fin (real sent / real (max received 1)))
                 \<and> (Some w \<notin> set (map t_to (trows df)) \<longrightarrow>
                       num (wallet_row df w) ''received_transactions'' = Fin 0
                     \<and> (\<exists>sent. num (wallet_row df w) ''sent_transactions'' = Fin (real sent)
                           \<and> num (wallet_row df w) ''send_receive_ratio'' = Fin (real sent / 1)))"
proof (intro conjI impI)
  show "num (wallet_row df w) ''received_transactions''
            = Fin (real (length (filter (\<lambda>t. t_to t = Some w) (trows df))))"
    by (simp add: num_counts received_of_def)
  show "\<exists>sent received.
                       num (wallet_row df w) ''sent_transactions'' = Fin (real sent)
                     \<and> num (wallet_row df w) ''received_transactions'' = Fin (real received)
                     \<and> num (wallet_row df w) ''send_receive_ratio''
                          = Fin (real sent / real (max received 1))"
    using num_counts(2-4)[of df w] by blast
next
  assume n: "Some w \<notin> set (map t_to (trows df))"
  show "num (wallet_row df w) ''received_transactions'' = Fin 0"
    by (simp add: num_counts received_none[OF n])
  show "\<exists>sent. num (wallet_row df w) ''sent_transactions'' = Fin (real sent)
            \<and> num (wallet_row df w) ''send_receive_ratio'' = Fin (real sent / 1)"
    by (intro exI[of _ "length (sent_of df w)"]) (simp add: num_counts received_none[OF n])
qed

text \<open>
  C6. On a cleaned table with the columns \<^verbatim>\<open>from\<close>, \<^verbatim>\<open>to\<close>, \<^verbatim>\<open>value\<close> and \<^verbatim>\<open>timeStamp\<close>
  the Feature Engine returns one row per wallet, and for every wallet
  \<^verbatim>\<open>received_transactions\<close> is the number of rows of the whole table whose \<^verbatim>\<open>to\<close>
  is the wallet (whatever partition the row belongs to), \<^verbatim>\<open>send_receive_ratio\<close> is
  \<^verbatim>\<open>sent_transactions\<close> / max(\<^verbatim>\<open>received_transactions\<close>, 1), and a wallet that no row
  names in \<^verbatim>\<open>to\<close> has \<^verbatim>\<open>received_transactions\<close> = 0 and the ratio
  \<^verbatim>\<open>sent_transactions\<close> / 1.
\<close>

theorem received_transactions_global:
  assumes "''from'' \<in> set (tcolumns df)" "''to'' \<in> set (tcolumns df)"
    "''value'' \<in> set (tcolumns df)" "''timeStamp'' \<in> set (tcolumns df)"
  shows "\<exists>ft. create_advanced_wallet_features df = Inr ft
           \<and> map wallet_id (wrows ft) = all_wallets_of df
           \<and> (\<forall>r \<in> set (wrows ft).
                 num r ''received_transactions''
                   = Fin (real (length (filter (\<lambda>t. t_to t = Some (wallet_id r)) (trows df))))
                 \<and> (\<exists>sent received.
                       num r ''sent_transactions'' = Fin (real sent)
                     \<and> num r ''received_transactions'' = Fin (real received)
                     \<and> num r ''send_receive_ratio'' = Fin (real sent / real (max received 1)))
                 \<and> (Some (wallet_id r) \<notin> set (map t_to (trows df)) \<longrightarrow>
                       num r ''received_transactions'' = Fin 0
                     \<and> (\<exists>sent. num r ''sent_transactions'' = Fin (real sent)
                           \<and> num r ''send_receive_ratio'' = Fin (real sent / 1))))"
proof -
  let ?ft = "\<lparr>wcolumns = (if all_wallets_of df = [] then [] else ''wallet_id'' # feature_names),
                wrows = map (wallet_row df) (all_wallets_of df)\<rparr>"
  have 1: "create_advanced_wallet_features df = Inr ?ft"
    by (rule create_features_returns[OF assms])
  have 2: "map wallet_id (wrows ?ft) = all_wallets_of df"
    by (simp add: o_def)
  have 3: "\<forall>r \<in> set (wrows ?ft).
                 num r ''received_transactions''
                   = Fin (real (length (filter (\<lambda>t. t_to t = Some (wallet_id r)) (trows df))))
                 \<and> (\<exists>sent received.
                       num r ''sent_transactions'' = Fin (real sent)
                     \<and> num r ''received_transactions'' = Fin (real received)
                     \<and> num r ''send_receive_ratio'' = Fin (real sent / real (max received 1)))
                 \<and> (Some (wallet_id r) \<notin> set (map t_to (trows df)) \<longrightarrow>
                       num r ''received_transactions'' = Fin 0
                     \<and> (\<exists>sent. num r ''sent_transactions'' = Fin (real sent)
                           \<and> num r ''send_receive_ratio'' = Fin (real sent / 1)))"
  proof
    fix r assume "r \<in> set (wrows ?ft)"
    then obtain w where r: "r = wallet_row df w" by auto
    show "num r ''received_transactions''
                   = Fin (real (length (filter (\<lambda>t. t_to t = Some (wallet_id r)) (trows df))))
                 \<and> (\<exists>sent received.
                       num r ''sent_transactions'' = Fin (real sent)
                     \<and> num r ''received_transactions'' = Fin (real received)
                     \<and> num r ''send_receive_ratio'' = Fin (real sent / real (max received 1)))
                 \<and> (Some (wallet_id r) \<notin> set (map t_to (trows df)) \<longrightarrow>
                       num r ''received_transactions'' = Fin 0
                     \<and> (\<exists>sent. num r ''sent_transactions'' = Fin (real sent)
                           \<and> num r ''send_receive_ratio'' = Fin (real sent / 1)))"
      unfolding r wallet_id_wallet_row by (rule received_row)
  qed
  from 1 2 3 show ?thesis by blast
qed

lemma demo_txns_cols:
  "''from'' \<in> set (tcolumns demo_txns)" "''to'' \<in> set (tcolumns demo_txns)"
  "''value'' \<in> set (tcolumns demo_txns)" "''timeStamp'' \<in> set (tcolumns demo_txns)"
  by (simp_all add: demo_txns_def)

lemma demo_txns_wallets: "all_wallets_of demo_txns = [''0xa'', ''0xb'']"
  by (simp add: all_wallets_of_def wallet_col_of_def wallet_key_def unique_def demo_txns_def)

lemma two_rows:
  "map wallet_id rs = [a, b] \<Longrightarrow> \<exists>r1 r2. rs = [r1, r2] \<and> wallet_id r1 = a \<and> wallet_id r2 = b"
  by (auto simp: map_eq_Cons_conv)

theorem received_transactions_global_witness:
  "\<exists>ft. create_advanced_wallet_features demo_txns = Inr ft
     \<and> map wallet_id (wrows ft) = [''0xa'', ''0xb'']
     \<and> map (\<lambda>r. num r ''received_transactions'') (wrows ft) = [Fin 1, Fin 0]"
proof -
  from received_transactions_global[OF demo_txns_cols]
  obtain ft where ft: "create_advanced_wallet_features demo_txns = Inr ft"
    and ids: "map wallet_id (wrows ft) = all_wallets_of demo_txns"
    and rec: "\<forall>r \<in> set (wrows ft). num r ''received_transactions''
         = Fin (real (length (filter (\<lambda>t. t_to t = Some (wallet_id r)) (trows demo_txns))))"
    by blast
  from ids obtain r1 r2 where rs: "wrows ft = [r1, r2]"
    and w: "wallet_id r1 = ''0xa''" "wallet_id r2 = ''0xb''"
    unfolding demo_txns_wallets using two_rows by blast
  have "num r1 ''received_transactions'' = Fin 1" "num r2 ''received_transactions'' = Fin 0"
    using rec by (simp_all add: rs w demo_txns_def)
  with ft ids rs show ?thesis
    by (simp add: demo_txns_wallets)
qed

lemma num_wallet_row:
  "num (wallet_row df w) c
     = (case map_of (wallet_feature_dict (tcolumns df) (wallet_txns_of df (wallet_col_of df) w)
                       (sent_of df w) (received_of df w)) c of
          Some v \<Rightarrow> v | None \<Rightarrow> NaN)"
  by (simp add: wallet_row_def row_of_dict_def)

lemma temporal_single:
  "length wt = 1 \<Longrightarrow>
     temporal_features wt = [(''avg_time_between_txns_hr'', Fin 0),
            (''activity_span_days'', Fin 1), (''transaction_frequency'', Fin 1)]"
  by (simp add: temporal_features_def)

lemma temporal_span:
  "\<exists>d. map_of (temporal_features wt) ''activity_span_days'' = Some (Fin d) \<and> 1 \<le> d"
  by (simp add: temporal_features_def Let_def)

lemma temporal_row:
  "num (wallet_row df w) ''total_transactions''
       = Fin (real (length (wallet_txns_of df (wallet_col_of df) w)))
   \<and> (length (wallet_txns_of df (wallet_col_of df) w) = 1 \<longrightarrow>
         num (wallet_row df w) ''avg_time_between_txns_hr'' = Fin 0
       \<and> num (wallet_row df w) ''activity_span_days'' = Fin 1
       \<and> num (wallet_row df w) ''transaction_frequency'' = Fin 1)
   \<and> (\<exists>d. num (wallet_row df w) ''activity_span_days'' = Fin d \<and> 1 \<le> d)"
proof (intro conjI impI)
  show "num (wallet_row df w) ''total_transactions''
       = Fin (real (length (wallet_txns_of df (wallet_col_of df) w)))"
    by (rule num_counts(1))
next
  assume one: "length (wallet_txns_of df (wallet_col_of df) w) = 1"
  show "num (wallet_row df w) ''avg_time_between_txns_hr'' = Fin 0"
    "num (wallet_row df w) ''activity_span_days'' = Fin 1"
    "num (wallet_row df w) ''transaction_frequency'' = Fin 1"
    by (simp_all add: num_wallet_row dict_temporal temporal_single[OF one])
next
  show "\<exists>d. num (wallet_row df w) ''activity_span_days'' = Fin d \<and> 1 \<le> d"
    using temporal_span[of "wallet_txns_of df (wallet_col_of df) w"]
    by (auto simp: num_wallet_row dict_temporal)
qed

text \<open>
  C7. On such a table every row of the result belongs to a wallet with at least one
  transaction; a wallet with exactly one transaction has
  \<^verbatim>\<open>avg_time_between_txns_hr\<close> = 0, \<^verbatim>\<open>activity_span_days\<close> = 1 and
  \<^verbatim>\<open>transaction_frequency\<close> = 1, and \<^verbatim>\<open>activity_span_days\<close> of every wallet is a
  number that is at least 1.
\<close>

theorem temporal_features_floor:
  assumes "''from'' \<in> set (tcolumns df)" "''to'' \<in> set (tcolumns df)"
    "''value'' \<in> set (tcolumns df)" "''timeStamp'' \<in> set (tcolumns df)"
  shows "\<exists>ft. create_advanced_wallet_features df = Inr ft
           \<and> map wallet_id (wrows ft) = all_wallets_of df
           \<and> (\<forall>r \<in> set (wrows ft).
                 1 \<le> length (wallet_txns_of df (wallet_col_of df) (wallet_id r))
               \<and> num r ''total_transactions''
                   = Fin (real (length (wallet_txns_of df (wallet_col_of df) (wallet_id r))))
               \<and> (length (wallet_txns_of df (wallet_col_of df) (wallet_id r)) = 1 \<longrightarrow>
                     num r ''avg_time_between_txns_hr'' = Fin 0
                   \<and> num r ''activity_span_days'' = Fin 1
                   \<and> num r ''transaction_frequency'' = Fin 1)
               \<and> (\<exists>d. num r ''activity_span_days'' = Fin d \<and> 1 \<le> d))"
proof -
  let ?ft = "\<lparr>wcolumns = (if all_wallets_of df = [] then [] else ''wallet_id'' # feature_names),
                wrows = map (wallet_row df) (all_wallets_of df)\<rparr>"
  have 1: "create_advanced_wallet_features df = Inr ?ft"
    by (rule create_features_returns[OF assms])
  have 2: "map wallet_id (wrows ?ft) = all_wallets_of df"
    by (simp add: o_def)
  have 3: "\<forall>r \<in> set (wrows ?ft).
                 1 \<le> length (wallet_txns_of df (wallet_col_of df) (wallet_id r))
               \<and> num r ''total_transactions''
                   = Fin (real (length (wallet_txns_of df (wallet_col_of df) (wallet_id r))))
               \<and> (length (wallet_txns_of df (wallet_col_of df) (wallet_id r)) = 1 \<longrightarrow>
                     num r ''avg_time_between_txns_hr'' = Fin 0
                   \<and> num r ''activity_span_days'' = Fin 1
                   \<and> num r ''transaction_frequency'' = Fin 1)
               \<and> (\<exists>d. num r ''activity_span_days'' = Fin d \<and> 1 \<le> d)"
  proof
    fix r assume "r \<in> set (wrows ?ft)"
    then obtain w where w: "w \<in> set (all_wallets_of df)" and r: "r = wallet_row df w" by auto
    have "1 \<le> length (wallet_txns_of df (wallet_col_of df) w)"
      using wallet_txns_nonempty[OF w] by (cases "wallet_txns_of df (wallet_col_of df) w") auto
    then show "1 \<le> length (wallet_txns_of df (wallet_col_of df) (wallet_id r))
               \<and> num r ''total_transactions''
                   = Fin (real (length (wallet_txns_of df (wallet_col_of df) (wallet_id r))))
               \<and> (length (wallet_txns_of df (wallet_col_of df) (wallet_id r)) = 1 \<longrightarrow>
                     num r ''avg_time_between_txns_hr'' = Fin 0
                   \<and> num r ''activity_span_days'' = Fin 1
                   \<and> num r ''transaction_frequency'' = Fin 1)
               \<and> (\<exists>d. num r ''activity_span_days'' = Fin d \<and> 1 \<le> d)"
      unfolding r wallet_id_wallet_row using temporal_row[of df w] by blast
  qed
  from 1 2 3 show ?thesis by blast
qed

theorem temporal_features_floor_witness:
  "\<exists>ft. create_advanced_wallet_features demo_txns = Inr ft
     \<and> map wallet_id (wrows ft) = [''0xa'', ''0xb'']
     \<and> map (\<lambda>r. num r ''total_transactions'') (wrows ft) = [Fin 2, Fin 1]
     \<and> num (wrows ft ! 1) ''avg_time_between_txns_hr'' = Fin 0
     \<and> num (wrows ft ! 1) ''activity_span_days'' = Fin 1
     \<and> num (wrows ft ! 1) ''transaction_frequency'' = Fin 1"
proof -
  let ?n = "\<lambda>w. length (wallet_txns_of demo_txns (wallet_col_of demo_txns) w)"
  from temporal_features_floor[OF demo_txns_cols]
  obtain ft where ft: "create_advanced_wallet_features demo_txns = Inr ft"
    and ids: "map wallet_id (wrows ft) = all_wallets_of demo_txns"
    and rows: "\<forall>r \<in> set (wrows ft).
                 num r ''total_transactions'' = Fin (real (?n (wallet_id r)))
               \<and> (?n (wallet_id r) = 1 \<longrightarrow>
                     num r ''avg_time_between_txns_hr'' = Fin 0
                   \<and> num r ''activity_span_days'' = Fin 1
                   \<and> num r ''transaction_frequency'' = Fin 1)"
    by blast
  from ids obtain r1 r2 where rs: "wrows ft = [r1, r2]"
    and w: "wallet_id r1 = ''0xa''" "wallet_id r2 = ''0xb''"
    unfolding demo_txns_wallets using two_rows by blast
  have n: "?n ''0xa'' = 2" "?n ''0xb'' = 1"
    by (simp_all add: wallet_txns_of_def wallet_col_of_def wallet_key_def demo_txns_def)
  have "num r1 ''total_transactions'' = Fin 2" "num r2 ''total_transactions'' = Fin 1"
    "num r2 ''avg_time_between_txns_hr'' = Fin 0" "num r2 ''activity_span_days'' = Fin 1"
    "num r2 ''transaction_frequency'' = Fin 1"
    using rows by (simp_all add: rs w n)
  with ft ids rs show ?thesis
    by (simp add: demo_txns_wallets)
qed

lemma function_features_keys:
  "map fst (function_features cols wt) = [''unique_functions'', ''contract_complexity'']"
  by (simp add: function_features_def Let_def)

lemma dict_keys: "map fst (wallet_feature_dict cols wt st rt) = feature_names"
  by (simp add: wallet_feature_dict_def Let_def gas_features_keys temporal_features_keys
        function_features_keys feature_names_def)

lemma series_mean_fin: "xs \<noteq> [] \<Longrightarrow> is_fin (series_mean xs)"
  by (simp add: series_mean_def)

lemma series_max_fin: "xs \<noteq> [] \<Longrightarrow> is_fin (series_max xs)"
  by (cases xs) (simp_all add: series_max_def)

lemma series_std_fin: "is_fin (series_std xs) \<longleftrightarrow> 2 \<le> length xs"
  by (auto simp: series_std_def Let_def)

lemma gas_fin:
  "wt \<noteq> [] \<Longrightarrow> (k, v) \<in> set (gas_features cols wt) \<Longrightarrow> k \<noteq> ''avg_gas_used'' \<Longrightarrow> is_fin v"
  by (auto simp: gas_features_def Let_def series_mean_fin split: if_splits)

lemma length_time_diffs: "length (time_diffs_of ts) = length ts - 1"
  by (simp add: time_diffs_of_def)

lemma temporal_fin: "(k, v) \<in> set (temporal_features wt) \<Longrightarrow> is_fin v"
proof (cases "1 < length wt")
  case True
  assume kv: "(k, v) \<in> set (temporal_features wt)"
  have "time_diffs_of (sort (map t_timeStamp wt)) \<noteq> []"
    using True length_time_diffs[of "sort (map t_timeStamp wt)"] by (auto simp del: length_0_conv)
  then obtain m where "series_mean (time_diffs_of (sort (map t_timeStamp wt))) = Fin m"
    by (auto simp: series_mean_def)
  with kv True show ?thesis
    by (auto simp: temporal_features_def Let_def)
next
  case False
  assume "(k, v) \<in> set (temporal_features wt)"
  with False show ?thesis by (auto simp: temporal_features_def)
qed

lemma function_fin: "(k, v) \<in> set (function_features cols wt) \<Longrightarrow> is_fin v"
  by (auto simp: function_features_def Let_def split: if_splits)

lemma fin_entry_simps [simp]:
  "fin_entry (k, Fin x)"
  "is_fin v \<Longrightarrow> fin_entry (k, v)"
  "fin_entry (''value_std'', v)"
  "fin_entry (''avg_gas_used'', v)"
  by (simp_all add: fin_entry_def)

lemma gas_all: "wt \<noteq> [] \<Longrightarrow> list_all fin_entry (gas_features cols wt)"
  by (simp add: gas_features_def Let_def series_mean_fin)

lemma temporal_all: "list_all fin_entry (temporal_features wt)"
  by (auto simp: list_all_iff fin_entry_def dest: temporal_fin)

lemma function_all: "list_all fin_entry (function_features cols wt)"
  by (auto simp: list_all_iff fin_entry_def dest: function_fin)

lemma dict_all_fin: "wt \<noteq> [] \<Longrightarrow> list_all fin_entry (wallet_feature_dict cols wt st rt)"
  unfolding wallet_feature_dict_def Let_def
  by (simp add: gas_all temporal_all function_all series_mean_fin series_max_fin)

lemma dict_fin:
  assumes "wt \<noteq> []" "(k, v) \<in> set (wallet_feature_dict cols wt st rt)"
    "k \<noteq> ''value_std''" "k \<noteq> ''avg_gas_used''"
  shows "is_fin v"
  using dict_all_fin[OF assms(1), of cols st rt] assms(2-4)
  by (auto simp: list_all_iff fin_entry_def)

lemma num_value_std:
  "num (wallet_row df w) ''value_std''
     = series_std (map t_value (wallet_txns_of df (wallet_col_of df) w))"
  by (simp add: wallet_row_def row_of_dict_def wallet_feature_dict_def Let_def)

lemma dict_avg_gas_used:
  "map_of (wallet_feature_dict cols wt st rt) ''avg_gas_used''
     = map_of (gas_features cols wt) ''avg_gas_used''"
  unfolding wallet_feature_dict_def Let_def
  by (simp add: map_of_append_skip map_of_append_hit gas_features_keys del: map_of_append)

lemma dropna_empty: "dropna xs = [] \<longleftrightarrow> (\<forall>x \<in> set xs. x = None)"
  by (induction xs rule: dropna.induct) auto

lemma avg_gas_used_fin:
  "is_fin (num (wallet_row df w) ''avg_gas_used'') \<longleftrightarrow>
     (''gasUsed'' \<notin> set (tcolumns df) \<or> ''gasPrice'' \<notin> set (tcolumns df)
      \<or> list_ex (\<lambda>t. t_gasUsed t \<noteq> None) (wallet_txns_of df (wallet_col_of df) w))"
  by (auto simp: num_wallet_row dict_avg_gas_used gas_features_def Let_def series_mean_def
        dropna_empty list_ex_iff)

lemma num_fin:
  assumes w: "w \<in> set (all_wallets_of df)" and c: "c \<in> set feature_names"
    and ne: "c \<noteq> ''value_std''" "c \<noteq> ''avg_gas_used''"
  shows "is_fin (num (wallet_row df w) c)"
proof -
  let ?d = "wallet_feature_dict (tcolumns df) (wallet_txns_of df (wallet_col_of df) w)
              (sent_of df w) (received_of df w)"
  have "c \<in> fst ` set ?d" using c dict_keys[of "tcolumns df"] by (metis set_map)
  then obtain v where v: "map_of ?d c = Some v"
    by (metis map_of_eq_None_iff not_Some_eq)
  then have "(c, v) \<in> set ?d" by (rule map_of_SomeD)
  then have "is_fin v" using dict_fin[OF wallet_txns_nonempty[OF w]] ne by blast
  then show ?thesis by (simp add: num_wallet_row v)
qed

text \<open>
  C3, amended. On a cleaned table with the columns \<^verbatim>\<open>from\<close>, \<^verbatim>\<open>to\<close>, \<^verbatim>\<open>value\<close>
  and \<^verbatim>\<open>timeStamp\<close> every numeric feature other than \<^verbatim>\<open>value_std\<close> and
  \<^verbatim>\<open>avg_gas_used\<close> is a finite number in every row; \<^verbatim>\<open>value_std\<close> is a number
  exactly for the wallets with at least two transactions; \<^verbatim>\<open>avg_gas_used\<close> is a
  number exactly when a gas column is absent (the default 0) or one of the wallet's
  transactions has its \<^verbatim>\<open>gasUsed\<close>.
\<close>

theorem features_defined_except_std:
  assumes "''from'' \<in> set (tcolumns df)" "''to'' \<in> set (tcolumns df)"
    "''value'' \<in> set (tcolumns df)" "''timeStamp'' \<in> set (tcolumns df)"
  shows "\<exists>ft. create_advanced_wallet_features df = Inr ft
           \<and> map wallet_id (wrows ft) = all_wallets_of df
           \<and> (\<forall>r \<in> set (wrows ft).
                 (\<forall>c \<in> set feature_names.
                     c \<noteq> ''value_std'' \<and> c \<noteq> ''avg_gas_used'' \<longrightarrow> is_fin (num r c))
               \<and> (is_fin (num r ''value_std'') \<longleftrightarrow>
                     2 \<le> length (wallet_txns_of df (wallet_col_of df) (wallet_id r)))
               \<and> (is_fin (num r ''avg_gas_used'') \<longleftrightarrow>
                     ''gasUsed'' \<notin> set (tcolumns df) \<or> ''gasPrice'' \<notin> set (tcolumns df)
                     \<or> list_ex (\<lambda>t. t_gasUsed t \<noteq> None)
                          (wallet_txns_of df (wallet_col_of df) (wallet_id r))))"
proof -
  let ?ft = "\<lparr>wcolumns = (if all_wallets_of df = [] then [] else ''wallet_id'' # feature_names),
                wrows = map (wallet_row df) (all_wallets_of df)\<rparr>"
  have 1: "create_advanced_wallet_features df = Inr ?ft"
    by (rule create_features_returns[OF assms])
  have 2: "map wallet_id (wrows ?ft) = all_wallets_of df"
    by (simp add: o_def)
  have 3: "\<forall>r \<in> set (wrows ?ft).
                 (\<forall>c \<in> set feature_names.
                     c \<noteq> ''value_std'' \<and> c \<noteq> ''avg_gas_used'' \<longrightarrow> is_fin (num r c))
               \<and> (is_fin (num r ''value_std'') \<longleftrightarrow>
                     2 \<le> length (wallet_txns_of df (wallet_col_of df) (wallet_id r)))
               \<and> (is_fin (num r ''avg_gas_used'') \<longleftrightarrow>
                     ''gasUsed'' \<notin> set (tcolumns df) \<or> ''gasPrice'' \<notin> set (tcolumns df)
                     \<or> list_ex (\<lambda>t. t_gasUsed t \<noteq> None)
                          (wallet_txns_of df (wallet_col_of df) (wallet_id r)))"
  proof
    fix r assume "r \<in> set (wrows ?ft)"
    then obtain w where w: "w \<in> set (all_wallets_of df)" and r: "r = wallet_row df w" by auto
    show "(\<forall>c \<in> set feature_names.
                     c \<noteq> ''value_std'' \<and> c \<noteq> ''avg_gas_used'' \<longrightarrow> is_fin (num r c))
               \<and> (is_fin (num r ''value_std'') \<longleftrightarrow>
                     2 \<le> length (wallet_txns_of df (wallet_col_of df) (wallet_id r)))
               \<and> (is_fin (num r ''avg_gas_used'') \<longleftrightarrow>
                     ''gasUsed'' \<notin> set (tcolumns df) \<or> ''gasPrice'' \<notin> set (tcolumns df)
                     \<or> list_ex (\<lambda>t. t_gasUsed t \<noteq> None)
                          (wallet_txns_of df (wallet_col_of df) (wallet_id r)))"
      unfolding r wallet_id_wallet_row
      using num_fin[OF w] avg_gas_used_fin[of df w]
      by (simp add: num_value_std series_std_fin)
  qed
  from 1 2 3 show ?thesis by blast
qed

text \<open>
  C3, as stated, fails: \<^verbatim>\<open>Series.std()\<close> of a single value is NaN, and the Feature
  Engine stores it as it is. On a table with one transaction the \<^verbatim>\<open>value_std\<close>
  column of the result is NaN.
\<close>

theorem value_std_single_counterexample:
  "feature_column ''value_std'' (create_advanced_wallet_features demo_single) = Inr [NaN]"
proof -
  have c: "''from'' \<in> set (tcolumns demo_single)" "''to'' \<in> set (tcolumns demo_single)"
    "''value'' \<in> set (tcolumns demo_single)" "''timeStamp'' \<in> set (tcolumns demo_single)"
    by (simp_all add: demo_single_def)
  have w: "all_wallets_of demo_single = [''0xa'']"
    by (simp add: all_wallets_of_def wallet_col_of_def wallet_key_def unique_def demo_single_def)
  have n: "wallet_txns_of demo_single (wallet_col_of demo_single) ''0xa'' = trows demo_single"
    by (simp add: wallet_txns_of_def wallet_col_of_def wallet_key_def demo_single_def)
  have s: "series_std (map t_value (trows demo_single)) = NaN"
    by (simp add: series_std_def demo_single_def)
  show ?thesis
    unfolding create_features_returns[OF c] w
    by (simp add: feature_column_def num_value_std n s)
qed

theorem features_defined_except_std_witness:
  "\<exists>ft. create_advanced_wallet_features demo_txns = Inr ft
     \<and> map wallet_id (wrows ft) = [''0xa'', ''0xb'']
     \<and> is_fin (num (wrows ft ! 0) ''value_std'')
     \<and> \<not> is_fin (num (wrows ft ! 1) ''value_std'')
     \<and> is_fin (num (wrows ft ! 0) ''avg_gas_used'')
     \<and> \<not> is_fin (num (wrows ft ! 1) ''avg_gas_used'')
     \<and> is_fin (num (wrows ft ! 1) ''zero_value_ratio'')"
proof -
  let ?wt = "\<lambda>w. wallet_txns_of demo_txns (wallet_col_of demo_txns) w"
  from features_defined_except_std[OF demo_txns_cols]
  obtain ft where ft: "create_advanced_wallet_features demo_txns = Inr ft"
    and ids: "map wallet_id (wrows ft) = all_wallets_of demo_txns"
    and rows: "\<forall>r \<in> set (wrows ft).
                 (\<forall>c \<in> set feature_names.
                     c \<noteq> ''value_std'' \<and> c \<noteq> ''avg_gas_used'' \<longrightarrow> is_fin (num r c))
               \<and> (is_fin (num r ''value_std'') \<longleftrightarrow> 2 \<le> length (?wt (wallet_id r)))
               \<and> (is_fin (num r ''avg_gas_used'') \<longleftrightarrow>
                     ''gasUsed'' \<notin> set (tcolumns demo_txns)
                     \<or> ''gasPrice'' \<notin> set (tcolumns demo_txns)
                     \<or> list_ex (\<lambda>t. t_gasUsed t \<noteq> None) (?wt (wallet_id r)))"
    by blast
  from ids obtain r1 r2 where rs: "wrows ft = [r1, r2]"
    and w: "wallet_id r1 = ''0xa''" "wallet_id r2 = ''0xb''"
    unfolding demo_txns_wallets using two_rows by blast
  have n: "?wt ''0xa'' = [trows demo_txns ! 0, trows demo_txns ! 1]"
    "?wt ''0xb'' = [trows demo_txns ! 2]"
    by (simp_all add: wallet_txns_of_def wallet_col_of_def wallet_key_def demo_txns_def)
  have z: "''zero_value_ratio'' \<in> set feature_names"
    by (simp add: feature_names_def)
  have g: "''gasUsed'' \<in> set (tcolumns demo_txns)" "''gasPrice'' \<in> set (tcolumns demo_txns)"
    by (simp_all add: demo_txns_def)
  have l: "list_ex (\<lambda>t. t_gasUsed t \<noteq> None) (?wt ''0xa'')"
    "\<not> list_ex (\<lambda>t. t_gasUsed t \<noteq> None) (?wt ''0xb'')"
    unfolding n by (simp_all add: demo_txns_def)
  have len: "length (?wt ''0xa'') = 2" "length (?wt ''0xb'') = 1"
    unfolding n by simp_all
  have "is_fin (num r1 ''value_std'')" "\<not> is_fin (num r2 ''value_std'')"
    "is_fin (num r1 ''avg_gas_used'')" "\<not> is_fin (num r2 ''avg_gas_used'')"
    using rows l by (simp_all add: rs w g len)
  moreover have "is_fin (num r2 ''zero_value_ratio'')"
    using rows z by (simp add: rs)
  ultimately show ?thesis using ft ids rs
    by (simp add: demo_txns_wallets)
qed

section \<open>Properties of the Base Risk Scorer\<close>

lemma fold_min_le: "x \<in> set (v # vs) \<Longrightarrow> fold min vs v \<le> (x::real)"
  unfolding Min.set_eq_fold[symmetric] by (rule Min_le) auto

lemma fold_max_ge: "x \<in> set (v # vs) \<Longrightarrow> (x::real) \<le> fold max vs v"
  unfolding Max.set_eq_fold[symmetric] by (rule Max_ge) auto

lemma minmax_range:
  assumes fit: "minmax_fit xs = Some (scale, off)" and x: "Some x \<in> set xs"
  shows "0 \<le> x * scale + off \<and> x * scale + off \<le> 1"
proof -
  from fit obtain v vs where d: "dropna xs = v # vs"
    by (auto simp: minmax_fit_def split: list.splits)
  define lo where "lo = fold min vs v"
  define hi where "hi = fold max vs v"
  have xin: "x \<in> set (v # vs)" using x d set_dropna[of xs] by auto
  have lo: "lo \<le> x" and hi: "x \<le> hi"
    using fold_min_le[OF xin] fold_max_ge[OF xin] by (simp_all add: lo_def hi_def)
  have sc: "scale = 1 / (if hi - lo = 0 then 1 else hi - lo)" and mn: "off = 0 - lo * scale"
    using fit by (auto simp add: minmax_fit_def d Let_def lo_def hi_def)
  show ?thesis
  proof (cases "hi - lo = 0")
    case True
    then have "x = lo" using lo hi by simp
    then show ?thesis using True by (simp add: sc mn)
  next
    case False
    then have pos: "0 < hi - lo" using lo hi by simp
    have sc': "scale = 1 / (hi - lo)" using False sc by simp
    have eq: "x * scale + off = (x - lo) / (hi - lo)"
      by (simp add: sc' mn diff_divide_distrib)
    show ?thesis unfolding eq using pos lo hi by (simp add: field_simps)
  qed
qed

lemma features_scaled_range:
  assumes "r \<in> set (wrows df)" "features_scaled df r c = Some v"
  shows "0 \<le> v \<and> v \<le> 1"
proof -
  from assms(2) obtain scale off x where fit: "minmax_fit (features_col df c) = Some (scale, off)"
    and x: "replace_inf (cellnum r c) = Some x" and v: "v = x * scale + off"
    by (auto simp: features_scaled_def minmax_transform_def split: option.splits prod.splits)
  have "Some x \<in> set (features_col df c)"
    using assms(1) x by (force simp: features_col_def)
  from minmax_range[OF fit this] show ?thesis by (simp add: v)
qed

lemma sum_list_unit:
  "(\<forall>x \<in> set xs. 0 \<le> x \<and> x \<le> (1::real)) \<Longrightarrow> 0 \<le> sum_list xs \<and> sum_list xs \<le> real (length xs)"
  by (induction xs) auto

lemma nan_mean_range:
  assumes "\<forall>v \<in> set (dropna xs). 0 \<le> v \<and> v \<le> 1" "nan_mean xs = Some m"
  shows "0 \<le> m \<and> m \<le> 1"
proof -
  from assms(2) obtain v vs where d: "dropna xs = v # vs"
    and m: "m = sum_list (v # vs) / real (length (v # vs))"
    by (auto simp: nan_mean_def split: list.splits)
  have "0 \<le> sum_list (v # vs) \<and> sum_list (v # vs) \<le> real (length (v # vs))"
    using assms(1) sum_list_unit[of "v # vs"] unfolding d by blast
  then show ?thesis unfolding m by (simp add: field_simps)
qed

lemma component_risk_range:
  assumes r: "r \<in> set (wrows df)" and w: "0 \<le> snd config"
    and c: "component_risk df r config = Some v"
  shows "0 \<le> v \<and> v \<le> snd config"
proof (cases "filter (\<lambda>f. f \<in> set (feature_cols_of df)) (fst config) = []")
  case True
  then show ?thesis using c w by (simp add: component_risk_def)
next
  case False
  let ?av = "filter (\<lambda>f. f \<in> set (feature_cols_of df)) (fst config)"
  from c False obtain m where m: "nan_mean (map (features_scaled df r) ?av) = Some m"
    and v: "v = m * snd config"
    by (auto simp: component_risk_def Let_def)
  have "\<forall>v \<in> set (dropna (map (features_scaled df r) ?av)). 0 \<le> v \<and> v \<le> 1"
    using features_scaled_range[OF r] by (auto simp: set_dropna)
  from nan_mean_range[OF this m] have "0 \<le> m" "m \<le> 1" by simp_all
  then show ?thesis unfolding v using w
    by (simp add: mult_left_le_one_le mult.commute)
qed

lemma weighted_sum_range:
  assumes r: "r \<in> set (wrows df)" and w: "\<forall>(component, config) \<in> set cs. 0 \<le> snd config"
  shows "0 \<le> sum_list (dropna (map (\<lambda>(component, config). component_risk df r config) cs))
       \<and> sum_list (dropna (map (\<lambda>(component, config). component_risk df r config) cs))
           \<le> sum_list (map (\<lambda>(component, config). snd config) cs)"
  using w
proof (induction cs)
  case Nil
  then show ?case by simp
next
  case (Cons a cs)
  obtain component config where a: "a = (component, config)" by (cases a)
  from Cons.prems have w0: "0 \<le> snd config" and ws: "\<forall>(component, config) \<in> set cs. 0 \<le> snd config"
    by (auto simp: a)
  note ih = Cons.IH[OF ws]
  show ?case
  proof (cases "component_risk df r config")
    case None
    then show ?thesis using ih w0 by (simp add: a)
  next
    case (Some v)
    from component_risk_range[OF r w0 Some] show ?thesis using ih by (simp add: a Some)
  qed
qed

lemma weights_sum: "sum_list (map (\<lambda>(component, config). snd config) risk_components) = 1"
  by (simp add: risk_components_def)

lemma weights_nonneg: "\<forall>(component, config) \<in> set risk_components. 0 \<le> snd config"
  by (simp add: risk_components_def)

lemma base_score_range:
  "r \<in> set (wrows df) \<Longrightarrow> 0 \<le> base_score_of df r \<and> base_score_of df r \<le> 1"
  using weighted_sum_range[OF _ weights_nonneg, of r df]
  by (simp add: base_score_of_def weights_sum)

lemma component_absent:
  "\<forall>f \<in> set (fst config). f \<notin> set (feature_cols_of df) \<Longrightarrow> component_risk df r config = Some 0"
  by (simp add: component_risk_def filter_empty_conv)

text \<open>
  C8. The weights of the five risk components are 0.20, 0.25, 0.20, 0.15 and 0.20 and
  sum to 1. For every feature table and every wallet of it, the base value before the
  boosts (\<^verbatim>\<open>risk_scores.sum(axis=1)\<close>) lies in [0, 1], and a component none of whose
  features is a column of the table contributes 0.
\<close>

theorem base_value_in_unit_interval:
  "map (\<lambda>(component, config). snd config) risk_components
     = [20 / 100, 25 / 100, 20 / 100, 15 / 100, 20 / 100]
   \<and> sum_list (map (\<lambda>(component, config). snd config) risk_components) = 1
   \<and> (\<forall>r \<in> set (wrows df).
         0 \<le> base_score_of df r \<and> base_score_of df r \<le> 1
       \<and> (\<forall>(component, config) \<in> set risk_components.
             (\<forall>f \<in> set (fst config). f \<notin> set (feature_cols_of df))
             \<longrightarrow> component_risk df r config = Some 0))"
proof (intro conjI ballI)
  show "map (\<lambda>(component, config). snd config) risk_components
     = [20 / 100, 25 / 100, 20 / 100, 15 / 100, 20 / 100]"
    by (simp add: risk_components_def)
  show "sum_list (map (\<lambda>(component, config). snd config) risk_components) = 1"
    by (rule weights_sum)
next
  fix r assume r: "r \<in> set (wrows df)"
  show "0 \<le> base_score_of df r" "base_score_of df r \<le> 1"
    using base_score_range[OF r] by simp_all
  fix x assume "x \<in> set risk_components"
  show "case x of (component, config) \<Rightarrow>
          (\<forall>f \<in> set (fst config). f \<notin> set (feature_cols_of df))
             \<longrightarrow> component_risk df r config = Some 0"
    using component_absent by (cases x) auto
qed

text \<open>
  C5. On a table with a row and a feature column the score of every wallet is
  min(base \<times> boost \<times> 1000, 1000), where the boost is the product of 1.3 (scaled
  \<^verbatim>\<open>error_rate\<close> > 0.1), 1.2 (scaled \<^verbatim>\<open>zero_value_ratio\<close> > 0.5) and 1.4 (scaled
  \<^verbatim>\<open>transaction_frequency\<close> > 0.95), each applied when its condition holds; a wallet
  that meets the first two conditions has its base value multiplied by 1.56 (times 1.4
  when it meets the third). The only clamp is the cap at 1000.
\<close>

theorem boosts_compose:
  assumes "wrows df \<noteq> []" "feature_cols_of df \<noteq> []"
  shows "calculate_advanced_risk_score df
           = Inr (map (\<lambda>r. min (base_score_of df r * spec_boost df r * 1000) 1000) (wrows df))
         \<and> (\<forall>r \<in> set (wrows df).
               exceeds df r ''error_rate'' (1 / 10) \<and> exceeds df r ''zero_value_ratio'' (5 / 10)
               \<longrightarrow> base_score_of df r * spec_boost df r
                     = base_score_of df r * (156 / 100)
                       * (if exceeds df r ''transaction_frequency'' (95 / 100)
                          then 14 / 10 else 1))"
proof -
  have "adjusted_score df r = min (base_score_of df r * spec_boost df r * 1000) 1000" for r
    by (simp add: adjusted_score_def spec_boost_def Let_def)
  then have "calculate_advanced_risk_score df
           = Inr (map (\<lambda>r. min (base_score_of df r * spec_boost df r * 1000) 1000) (wrows df))"
    using assms by (simp add: calculate_advanced_risk_score_def)
  moreover have "\<forall>r \<in> set (wrows df).
               exceeds df r ''error_rate'' (1 / 10) \<and> exceeds df r ''zero_value_ratio'' (5 / 10)
               \<longrightarrow> base_score_of df r * spec_boost df r
                     = base_score_of df r * (156 / 100)
                       * (if exceeds df r ''transaction_frequency'' (95 / 100)
                          then 14 / 10 else 1)"
    by (simp add: spec_boost_def)
  ultimately show ?thesis by blast
qed

lemma demo_features_rows: "wrows demo_features = [demo_wallet_a, demo_wallet_b, demo_wallet_c]"
  by (simp add: demo_features_def)

lemma demo_features_cols:
  "feature_cols_of demo_features
     = [''total_transactions'', ''error_rate'', ''zero_value_ratio'',
        ''transaction_frequency'', ''value_std'']"
  by (simp add: feature_cols_of_def demo_features_def)

lemma demo_features_fit:
  "minmax_fit (features_col demo_features ''total_transactions'') = Some (1 / 4, - (1 / 4))"
  "minmax_fit (features_col demo_features ''error_rate'') = Some (1, 0)"
  "minmax_fit (features_col demo_features ''zero_value_ratio'') = Some (1, 0)"
  "minmax_fit (features_col demo_features ''transaction_frequency'') = Some (1 / 2, - (1 / 2))"
  by (simp_all add: minmax_fit_def features_col_def cellnum_def demo_features_def Let_def
        demo_wallet_a_def demo_wallet_b_def demo_wallet_c_def)

lemma demo_scaled_a:
  "features_scaled demo_features demo_wallet_a ''total_transactions'' = Some 0"
  "features_scaled demo_features demo_wallet_a ''error_rate'' = Some 0"
  "features_scaled demo_features demo_wallet_a ''zero_value_ratio'' = Some 0"
  "features_scaled demo_features demo_wallet_a ''transaction_frequency'' = Some 0"
  by (simp_all add: features_scaled_def demo_features_fit minmax_transform_def cellnum_def
        demo_wallet_a_def)

lemma demo_scaled_b:
  "features_scaled demo_features demo_wallet_b ''total_transactions'' = Some (1 / 2)"
  "features_scaled demo_features demo_wallet_b ''error_rate'' = Some (1 / 2)"
  "features_scaled demo_features demo_wallet_b ''zero_value_ratio'' = Some 1"
  "features_scaled demo_features demo_wallet_b ''transaction_frequency'' = Some 0"
  by (simp_all add: features_scaled_def demo_features_fit minmax_transform_def cellnum_def
        demo_wallet_b_def)

lemma demo_scaled_c:
  "features_scaled demo_features demo_wallet_c ''total_transactions'' = Some 1"
  "features_scaled demo_features demo_wallet_c ''error_rate'' = Some 1"
  "features_scaled demo_features demo_wallet_c ''zero_value_ratio'' = Some 0"
  "features_scaled demo_features demo_wallet_c ''transaction_frequency'' = Some 1"
  by (simp_all add: features_scaled_def demo_features_fit minmax_transform_def cellnum_def
        demo_wallet_c_def)

lemma demo_base:
  "base_score_of demo_features demo_wallet_a = 0"
  "base_score_of demo_features demo_wallet_b = 1 / 5"
  "base_score_of demo_features demo_wallet_c = 13 / 20"
  by (simp_all add: base_score_of_def risk_components_def component_risk_def
        demo_features_cols nan_mean_def demo_scaled_a demo_scaled_b demo_scaled_c Let_def)

lemma demo_boost:
  "spec_boost demo_features demo_wallet_a = 1"
  "spec_boost demo_features demo_wallet_b = 156 / 100"
  "spec_boost demo_features demo_wallet_c = 182 / 100"
  by (simp_all add: spec_boost_def exceeds_def demo_features_cols
        demo_scaled_a demo_scaled_b demo_scaled_c)

theorem boosts_compose_witness:
  "calculate_advanced_risk_score demo_features = Inr [0, 312, 1000]"
proof -
  have 1: "wrows demo_features \<noteq> []" by (simp add: demo_features_rows)
  have 2: "feature_cols_of demo_features \<noteq> []" by (simp add: demo_features_cols)
  have "calculate_advanced_risk_score demo_features
           = Inr (map (\<lambda>r. min (base_score_of demo_features r * spec_boost demo_features r * 1000)
                    1000) (wrows demo_features))"
    using boosts_compose[OF 1 2] by (rule conjunct1)
  then show ?thesis
    by (simp add: demo_features_rows demo_base demo_boost)
qed

theorem base_value_in_unit_interval_witness:
  "0 \<le> base_score_of demo_features demo_wallet_c
   \<and> base_score_of demo_features demo_wallet_c \<le> 1
   \<and> base_score_of demo_features demo_wallet_c = 13 / 20
   \<and> component_risk demo_features demo_wallet_c ([''avg_time_between_txns_hr''], 15 / 100) = Some 0"
proof -
  have r: "demo_wallet_c \<in> set (wrows demo_features)" by (simp add: demo_features_rows)
  have t: "(''temporal_risk'', [''avg_time_between_txns_hr''], 15 / 100) \<in> set risk_components"
    by (simp add: risk_components_def)
  have a: "\<forall>f \<in> set (fst ([''avg_time_between_txns_hr''], 15 / 100 :: real)).
             f \<notin> set (feature_cols_of demo_features)"
    by (simp add: demo_features_cols)
  from base_value_in_unit_interval[of demo_features] r
  have "0 \<le> base_score_of demo_features demo_wallet_c
        \<and> base_score_of demo_features demo_wallet_c \<le> 1
        \<and> (\<forall>(component, config) \<in> set risk_components.
             (\<forall>f \<in> set (fst config). f \<notin> set (feature_cols_of demo_features))
             \<longrightarrow> component_risk demo_features demo_wallet_c config = Some 0)"
    by blast
  with t a show ?thesis by (auto simp: demo_base)
qed

lemma score_columns_eq:
  "score_columns =
     [''total_transactions'', ''total_value_sent'', ''max_transaction_value'',
      ''send_receive_ratio'', ''recipient_concentration'', ''transaction_frequency'',
      ''avg_gas_used'', ''total_gas_cost'', ''error_rate'', ''avg_time_between_txns_hr'',
      ''unique_recipients'', ''unique_senders'', ''unique_functions'',
      ''contract_complexity'', ''zero_value_ratio'']"
  by (simp add: score_columns_def risk_components_def)

lemma boost_in_score_columns:
  "''error_rate'' \<in> set score_columns" "''zero_value_ratio'' \<in> set score_columns"
  "''transaction_frequency'' \<in> set score_columns"
  by (simp_all add: score_columns_eq)

lemma score_columns_plain:
  "c \<in> set score_columns \<Longrightarrow> c \<noteq> ''is_anomaly'' \<and> c \<noteq> ''cluster''"
  unfolding score_columns_eq by auto

lemma component_in_score_columns:
  assumes "(component, config) \<in> set risk_components"
  shows "set (fst config) \<subseteq> set score_columns"
proof
  fix f assume f: "f \<in> set (fst config)"
  have "f \<in> set (concat (map (\<lambda>c. fst (snd c)) risk_components))"
    using f assms by (auto intro!: bexI[of _ "(component, config)"])
  then show "f \<in> set score_columns" by (simp add: score_columns_def)
qed

lemma features_col_agree:
  assumes "c \<in> set score_columns"
    and "map (\<lambda>r. num r c) (wrows df) = map (\<lambda>r. num r c) (wrows df')"
  shows "features_col df c = features_col df' c"
proof -
  have h: "features_col d c = map replace_inf (map (\<lambda>r. num r c) (wrows d))" for d
    using score_columns_plain[OF assms(1)] by (simp add: features_col_def cellnum_def)
  show ?thesis by (simp only: h assms(2))
qed

lemma features_scaled_agree:
  assumes "c \<in> set score_columns" "features_col df c = features_col df' c" "num r c = num r' c"
  shows "features_scaled df r c = features_scaled df' r' c"
  using score_columns_plain[OF assms(1)] assms(2,3)
  by (simp add: features_scaled_def cellnum_def)

lemma adjusted_score_agree:
  assumes fc: "feature_cols_of df = feature_cols_of df'"
    and col: "\<forall>c \<in> set score_columns. features_col df c = features_col df' c"
    and row: "\<forall>c \<in> set score_columns. num r c = num r' c"
  shows "adjusted_score df r = adjusted_score df' r'"
proof -
  have sc: "features_scaled df r c = features_scaled df' r' c" if "c \<in> set score_columns" for c
    using features_scaled_agree[OF that] col row that by blast
  have comp: "component_risk df r config = component_risk df' r' config"
    if "(component, config) \<in> set risk_components" for component config
  proof -
    have "map (features_scaled df r) (filter (\<lambda>f. f \<in> set (feature_cols_of df')) (fst config))
        = map (features_scaled df' r') (filter (\<lambda>f. f \<in> set (feature_cols_of df')) (fst config))"
      using component_in_score_columns[OF that] by (intro map_cong refl sc) auto
    then show ?thesis unfolding component_risk_def fc Let_def by (simp only:)
  qed
  have base: "base_score_of df r = base_score_of df' r'"
  proof -
    have "map (\<lambda>(component, config). component_risk df r config) risk_components
        = map (\<lambda>(component, config). component_risk df' r' config) risk_components"
      using comp by (intro map_cong refl) auto
    then show ?thesis unfolding base_score_of_def by (simp only:)
  qed
  have ex: "exceeds df r c t = exceeds df' r' c t" if "c \<in> set score_columns" for c t
    by (simp add: exceeds_def fc sc[OF that])
  show ?thesis
    unfolding adjusted_score_def base ex[OF boost_in_score_columns(1)]
      ex[OF boost_in_score_columns(2)] ex[OF boost_in_score_columns(3)]
    by (rule refl)
qed

text \<open>
  C10. Two feature tables with the same columns and as many rows, whose columns named
  in the five risk components, and \<^verbatim>\<open>zero_value_ratio\<close>, hold the same values, get
  the same result from \<^verbatim>\<open>calculate_advanced_risk_score\<close>: the same scores, or the
  same error.
\<close>

theorem score_depends_only_on_component_columns:
  assumes cols: "wcolumns df = wcolumns df'"
    and len: "length (wrows df) = length (wrows df')"
    and agree: "\<forall>c \<in> set score_columns.
                  map (\<lambda>r. num r c) (wrows df) = map (\<lambda>r. num r c) (wrows df')"
  shows "calculate_advanced_risk_score df = calculate_advanced_risk_score df'"
proof -
  have fc: "feature_cols_of df = feature_cols_of df'"
    by (simp add: feature_cols_of_def cols)
  have col: "\<forall>c \<in> set score_columns. features_col df c = features_col df' c"
    using features_col_agree agree by blast
  have row: "\<forall>c \<in> set score_columns. num (wrows df ! i) c = num (wrows df' ! i) c"
    if "i < length (wrows df)" for i
  proof
    fix c assume "c \<in> set score_columns"
    with agree have "map (\<lambda>r. num r c) (wrows df) ! i = map (\<lambda>r. num r c) (wrows df') ! i"
      by simp
    then show "num (wrows df ! i) c = num (wrows df' ! i) c"
      using that len by simp
  qed
  have "map (adjusted_score df) (wrows df) = map (adjusted_score df') (wrows df')"
    using len adjusted_score_agree[OF fc col row]
    by (intro nth_equalityI) simp_all
  moreover have "wrows df = [] \<longleftrightarrow> wrows df' = []"
    using len by (metis length_0_conv)
  ultimately show ?thesis
    by (simp add: calculate_advanced_risk_score_def fc)
qed

lemma value_std_not_scored:
  "c \<in> set score_columns \<Longrightarrow> c \<noteq> ''value_std'' \<and> c \<noteq> ''activity_span_days''"
  unfolding score_columns_eq by auto

theorem score_depends_only_on_component_columns_witness:
  "calculate_advanced_risk_score demo_features_other
     = calculate_advanced_risk_score demo_features
   \<and> map (\<lambda>r. num r ''value_std'') (wrows demo_features_other)
       \<noteq> map (\<lambda>r. num r ''value_std'') (wrows demo_features)"
proof -
  have 1: "wcolumns demo_features_other = wcolumns demo_features"
    by (simp add: demo_features_other_def demo_features_def)
  have 2: "length (wrows demo_features_other) = length (wrows demo_features)"
    by (simp add: demo_features_other_def demo_features_def)
  have 3: "\<forall>c \<in> set score_columns.
             map (\<lambda>r. num r c) (wrows demo_features_other)
               = map (\<lambda>r. num r c) (wrows demo_features)"
  proof
    fix c assume "c \<in> set score_columns"
    from value_std_not_scored[OF this]
    show "map (\<lambda>r. num r c) (wrows demo_features_other)
               = map (\<lambda>r. num r c) (wrows demo_features)"
      by (simp add: demo_features_other_def demo_features_def)
  qed
  have 4: "map (\<lambda>r. num r ''value_std'') (wrows demo_features_other)
       \<noteq> map (\<lambda>r. num r ''value_std'') (wrows demo_features)"
    by (simp add: demo_features_other_def demo_features_def demo_wallet_a_def)
  from score_depends_only_on_component_columns[OF 1 2 3] 4 show ?thesis by blast
qed

section \<open>Properties of the ML Refiner\<close>

lemma fold_fl_add_fin:
  "\<forall>x \<in> set xs. is_fin x \<Longrightarrow> fold fl_add xs (Fin a) = Fin (a + sum_list (map fin_val xs))"
proof (induction xs arbitrary: a)
  case Nil
  then show ?case by simp
next
  case (Cons x xs)
  then obtain b where b: "x = Fin b" by (cases x) auto
  from Cons show ?case by (simp add: b add.assoc)
qed

lemma fl_mean_fin:
  assumes "\<forall>x \<in> set xs. is_fin x" "xs \<noteq> []"
  shows "fl_mean xs = Fin (sum_list (map fin_val xs) / real (length xs))"
proof -
  have f: "filter (\<lambda>x. x \<noteq> NaN) xs = xs"
    using assms(1) by (auto simp: filter_id_conv)
  show ?thesis
    using assms(2) by (simp add: fl_mean_def f Let_def fold_fl_add_fin[OF assms(1)])
qed

lemma apply_returns:
  assumes "X_scaled_of df = Inr X"
    and "IsolationForest iso_forest_params rng X = Inr a" "length a = length (wrows df)"
    and "KMeans kmeans_params rng X = Inr k" "length k = length (wrows df)"
    and "''base_risk_score'' \<in> set (wcolumns df)"
  shows "apply_ml_refinements IsolationForest KMeans rng df
           = Inr \<lparr>wcolumns = add_col ''cluster_risk_adjustment''
                                (add_col ''cluster'' (add_col ''is_anomaly'' (wcolumns df))),
                   wrows = refined_rows (wrows df) a k\<rparr>"
  using assms by (simp add: apply_ml_refinements_def refined_rows_def Let_def)

lemma refined_rows_labelled:
  "refined_rows rs a k =
     map (\<lambda>r. r\<lparr>num := (num r)(''cluster_risk_adjustment'' :=
                   cluster_risk_adj (labelled_rows rs a k) (cluster r))\<rparr>) (labelled_rows rs a k)"
  by (simp add: refined_rows_def labelled_rows_def Let_def)

lemma labelled_rows_props:
  assumes "length a = length rs" "length k = length rs"
  shows "map cluster (labelled_rows rs a k) = k"
    and "map is_anomaly (labelled_rows rs a k) = map (\<lambda>x. x = - 1) a"
    and "map num (labelled_rows rs a k) = map num rs"
    and "length (labelled_rows rs a k) = length rs"
proof -
  have "length rs = length a" "length a = length k" using assms by simp_all
  then have "map cluster (labelled_rows rs a k) = k
    \<and> map is_anomaly (labelled_rows rs a k) = map (\<lambda>x. x = - 1) a
    \<and> map num (labelled_rows rs a k) = map num rs
    \<and> length (labelled_rows rs a k) = length rs"
    by (induction rs a k rule: list_induct3) (simp_all add: labelled_rows_def)
  then show "map cluster (labelled_rows rs a k) = k"
    and "map is_anomaly (labelled_rows rs a k) = map (\<lambda>x. x = - 1) a"
    and "map num (labelled_rows rs a k) = map num rs"
    and "length (labelled_rows rs a k) = length rs"
    by simp_all
qed

lemma map_base_of_num: "map num rs = map num rs' \<Longrightarrow> map base_of rs = map base_of rs'"
proof -
  assume h: "map num rs = map num rs'"
  have "map (\<lambda>f. fin_val (f ''base_risk_score'')) (map num rs)
      = map (\<lambda>f. fin_val (f ''base_risk_score'')) (map num rs')"
    by (simp only: h)
  then show ?thesis by (simp add: base_of_def[abs_def] o_def)
qed

lemma base_column_num:
  "map num rs = map num rs' \<Longrightarrow>
     map (\<lambda>r. num r ''base_risk_score'') rs = map (\<lambda>r. num r ''base_risk_score'') rs'"
proof -
  assume h: "map num rs = map num rs'"
  have "map (\<lambda>f. f ''base_risk_score'') (map num rs)
      = map (\<lambda>f. f ''base_risk_score'') (map num rs')"
    by (simp only: h)
  then show ?thesis by (simp add: o_def)
qed

lemma mean_base_nonneg:
  "\<forall>r \<in> set rs. 0 \<le> base_of r \<Longrightarrow> 0 \<le> mean_base rs"
  by (auto simp: mean_base_def intro!: divide_nonneg_nonneg sum_list_nonneg)

lemma cluster_risk_adj_fin:
  assumes fin: "\<forall>r \<in> set rs. is_fin (num r ''base_risk_score'')"
    and m: "m \<in> set rs" and pm: "mean_base rs \<noteq> 0"
  shows "cluster_risk_adj rs (cluster m)
           = Fin (mean_base (filter (\<lambda>r. cluster r = cluster m) rs) / mean_base rs)"
proof -
  let ?mem = "filter (\<lambda>r. cluster r = cluster m) rs"
  have ne: "?mem \<noteq> []" using m by (auto simp: filter_empty_conv)
  have rne: "rs \<noteq> []" using m by auto
  have c: "cluster_mean rs (cluster m) = Fin (mean_base ?mem)"
    unfolding cluster_mean_def
    using fl_mean_fin[of "map (\<lambda>r. num r ''base_risk_score'') ?mem"] fin ne
    by (simp add: mean_base_def base_of_def[abs_def] o_def)
  have p: "fl_mean (map (\<lambda>r. num r ''base_risk_score'') rs) = Fin (mean_base rs)"
    using fl_mean_fin[of "map (\<lambda>r. num r ''base_risk_score'') rs"] fin rne
    by (simp add: mean_base_def base_of_def[abs_def] o_def)
  show ?thesis using pm by (simp add: cluster_risk_adj_def c p)
qed

lemma mean_base_cong: "map base_of xs = map base_of ys \<Longrightarrow> mean_base xs = mean_base ys"
  using map_eq_imp_length_eq[of base_of xs base_of ys] by (simp add: mean_base_def)

lemma map_filter_preserve:
  assumes "\<And>x. P (g x) = P x" "\<And>x. f (g x) = f x"
  shows "map f (filter P (map g xs)) = map f (filter P xs)"
  by (induction xs) (auto simp: assms)

lemma refined_rows_props:
  assumes len: "length a = length rs" "length k = length rs"
    and fin: "\<forall>r \<in> set rs. is_fin (num r ''base_risk_score'')"
    and pm: "mean_base rs \<noteq> 0"
  shows "map cluster (refined_rows rs a k) = k"
    and "map is_anomaly (refined_rows rs a k) = map (\<lambda>x. x = - 1) a"
    and "map base_of (refined_rows rs a k) = map base_of rs"
    and "\<forall>r' \<in> set (refined_rows rs a k).
           num r' ''cluster_risk_adjustment'' = Fin (spec_cluster_adj (refined_rows rs a k) r')"
proof -
  let ?l = "labelled_rows rs a k"
  let ?g = "\<lambda>r. r\<lparr>num := (num r)(''cluster_risk_adjustment'' :=
                   cluster_risk_adj ?l (cluster r))\<rparr>"
  note lp = labelled_rows_props[OF len]
  have rr: "refined_rows rs a k = map ?g ?l" by (rule refined_rows_labelled)
  have bg: "base_of (?g r) = base_of r" for r by (simp add: base_of_def)
  show 1: "map cluster (refined_rows rs a k) = k"
    unfolding rr using lp(1) by (simp add: o_def)
  show "map is_anomaly (refined_rows rs a k) = map (\<lambda>x. x = - 1) a"
    unfolding rr using lp(2) by (simp add: o_def)
  have bl: "map base_of ?l = map base_of rs" by (rule map_base_of_num[OF lp(3)])
  have br: "map base_of (refined_rows rs a k) = map base_of ?l"
    unfolding rr by (simp add: o_def bg)
  show "map base_of (refined_rows rs a k) = map base_of rs"
    using br bl by simp
  have finl: "\<forall>r \<in> set ?l. is_fin (num r ''base_risk_score'')"
  proof
    fix r assume "r \<in> set ?l"
    then have "num r ''base_risk_score'' \<in> set (map (\<lambda>r. num r ''base_risk_score'') ?l)"
      by simp
    then have "num r ''base_risk_score'' \<in> set (map (\<lambda>r. num r ''base_risk_score'') rs)"
      by (simp only: base_column_num[OF lp(3)])
    then obtain r0 where "r0 \<in> set rs" "num r0 ''base_risk_score'' = num r ''base_risk_score''"
      by auto
    then show "is_fin (num r ''base_risk_score'')" using fin by metis
  qed
  have ml: "mean_base ?l = mean_base rs"
    by (rule mean_base_cong[OF bl])
  have mr: "mean_base (refined_rows rs a k) = mean_base ?l"
    by (rule mean_base_cong[OF br])
  have fm: "mean_base (filter (\<lambda>m. cluster m = c) (refined_rows rs a k))
          = mean_base (filter (\<lambda>m. cluster m = c) ?l)" for c
    unfolding rr by (rule mean_base_cong, rule map_filter_preserve) (simp_all add: bg)
  show "\<forall>r' \<in> set (refined_rows rs a k).
           num r' ''cluster_risk_adjustment'' = Fin (spec_cluster_adj (refined_rows rs a k) r')"
  proof
    fix r' assume "r' \<in> set (refined_rows rs a k)"
    then obtain m where m: "m \<in> set ?l" and r': "r' = ?g m" unfolding rr by auto
    have "num r' ''cluster_risk_adjustment'' = cluster_risk_adj ?l (cluster m)"
      by (simp add: r')
    also have "\<dots> = Fin (mean_base (filter (\<lambda>r. cluster r = cluster m) ?l) / mean_base ?l)"
      by (rule cluster_risk_adj_fin[OF finl m]) (simp add: ml pm)
    also have "\<dots> = Fin (spec_cluster_adj (refined_rows rs a k) r')"
    proof -
      have "cluster r' = cluster m" by (simp add: r')
      then show ?thesis unfolding spec_cluster_adj_def fm mr by simp
    qed
    finally show "num r' ''cluster_risk_adjustment''
                    = Fin (spec_cluster_adj (refined_rows rs a k) r')" .
  qed
qed

lemma foldr_max_length_if:
  "\<forall>xs \<in> set xss. length xs = n \<Longrightarrow>
     foldr (\<lambda>xs. max (length xs)) xss 0 = (if xss = [] then 0 else n)"
  by (induction xss) auto

lemma foldr_max_length:
  "xss \<noteq> [] \<Longrightarrow> \<forall>xs \<in> set xss. length xs = n \<Longrightarrow> foldr (\<lambda>xs. max (length xs)) xss 0 = n"
  using foldr_max_length_if[of xss n] by simp

lemma length_standard_scale_col [simp]: "length (standard_scale_col xs) = length xs"
  by (simp add: standard_scale_col_def Let_def)

lemma length_X_scaled:
  assumes "X_scaled_of df = Inr X"
  shows "length X = length (wrows df)"
proof -
  let ?cols = "map (\<lambda>c. map (\<lambda>r. fill_zero (cellnum r c)) (wrows df)) (feature_cols_anomaly_of df)"
  from assms have ne: "feature_cols_anomaly_of df \<noteq> []"
    and X: "X = transpose (map standard_scale_col ?cols)"
    by (auto simp: X_scaled_of_def Let_def split: if_splits)
  have "foldr (\<lambda>xs. max (length xs)) (map standard_scale_col ?cols) 0 = length (wrows df)"
    using ne by (intro foldr_max_length) auto
  then show ?thesis by (simp add: X length_transpose)
qed

lemma demo_X_scaled:
  "\<exists>X. X_scaled_of demo_mixed_scores = Inr X \<and> length X = 5"
  "\<exists>X. X_scaled_of demo_zero_scores = Inr X \<and> length X = 5"
proof -
  have "\<exists>X. X_scaled_of demo_mixed_scores = Inr X"
    by (simp add: X_scaled_of_def feature_cols_anomaly_of_def demo_mixed_scores_def Let_def)
  then obtain X where X: "X_scaled_of demo_mixed_scores = Inr X" by blast
  from length_X_scaled[OF X] have "length X = 5" by (simp add: demo_mixed_scores_def)
  with X show "\<exists>X. X_scaled_of demo_mixed_scores = Inr X \<and> length X = 5" by blast
  have "\<exists>X. X_scaled_of demo_zero_scores = Inr X"
    by (simp add: X_scaled_of_def feature_cols_anomaly_of_def demo_zero_scores_def Let_def)
  then obtain Y where Y: "X_scaled_of demo_zero_scores = Inr Y" by blast
  from length_X_scaled[OF Y] have "length Y = 5" by (simp add: demo_zero_scores_def)
  with Y show "\<exists>X. X_scaled_of demo_zero_scores = Inr X \<and> length X = 5" by blast
qed

lemma upt_5: "[0..<5] = [0, 1, 2, 3, 4]"
  by (simp add: upt_rec)

lemma demo_labels:
  "length X = 5 \<Longrightarrow> demo_iforest iso_forest_params rng X = Inr [1, 1, - 1, 1, 1]"
  "length X = 5 \<Longrightarrow> demo_kmeans kmeans_params rng X = Inr [2, 3, 4, 0, 1]"
  by (simp_all add: demo_iforest_def demo_kmeans_def iso_forest_params_def kmeans_params_def
        upt_5)

text \<open>
  C4, amended. Let the estimators return one label per wallet, and let every
  \<^verbatim>\<open>base_risk_score\<close> be a finite number that is not negative, with a positive
  population mean. Then \<^verbatim>\<open>apply_ml_refinements\<close> returns, and every wallet gets
  \<^verbatim>\<open>cluster_risk_adjustment\<close> = (mean \<^verbatim>\<open>base_risk_score\<close> of its cluster) / (mean
  \<^verbatim>\<open>base_risk_score\<close> of the population); the value is not negative, and it is
  positive exactly when the mean of the wallet's cluster is.
\<close>

theorem cluster_risk_adjustment_ratio:
  assumes X: "X_scaled_of df = Inr X"
    and iso: "IsolationForest iso_forest_params rng X = Inr a" "length a = length (wrows df)"
    and km: "KMeans kmeans_params rng X = Inr k" "length k = length (wrows df)"
    and col: "''base_risk_score'' \<in> set (wcolumns df)"
    and base: "\<forall>r \<in> set (wrows df). is_fin (num r ''base_risk_score'') \<and> 0 \<le> base_of r"
    and pos: "0 < mean_base (wrows df)"
  shows "\<exists>df'. apply_ml_refinements IsolationForest KMeans rng df = Inr df'
           \<and> map cluster (wrows df') = k
           \<and> map base_of (wrows df') = map base_of (wrows df)
           \<and> (\<forall>r' \<in> set (wrows df').
                 num r' ''cluster_risk_adjustment'' = Fin (spec_cluster_adj (wrows df') r')
               \<and> 0 \<le> spec_cluster_adj (wrows df') r'
               \<and> (0 < spec_cluster_adj (wrows df') r' \<longleftrightarrow>
                    0 < mean_base (filter (\<lambda>m. cluster m = cluster r') (wrows df'))))"
proof -
  let ?rs = "refined_rows (wrows df) a k"
  let ?df' = "\<lparr>wcolumns = add_col ''cluster_risk_adjustment''
                                (add_col ''cluster'' (add_col ''is_anomaly'' (wcolumns df))),
                wrows = ?rs\<rparr>"
  have fin: "\<forall>r \<in> set (wrows df). is_fin (num r ''base_risk_score'')" using base by blast
  have pm: "mean_base (wrows df) \<noteq> 0" using pos by simp
  note rp = refined_rows_props[OF iso(2) km(2) fin pm]
  have 1: "apply_ml_refinements IsolationForest KMeans rng df = Inr ?df'"
    by (rule apply_returns[where IsolationForest = IsolationForest and KMeans = KMeans
          and rng = rng, OF X iso km col])
  have pr: "mean_base ?rs = mean_base (wrows df)" by (rule mean_base_cong[OF rp(3)])
  have nn: "\<forall>r \<in> set ?rs. 0 \<le> base_of r"
  proof
    fix r assume "r \<in> set ?rs"
    then have "base_of r \<in> set (map base_of ?rs)" by simp
    then have "base_of r \<in> set (map base_of (wrows df))" by (simp only: rp(3))
    then show "0 \<le> base_of r" using base by auto
  qed
  have 4: "\<forall>r' \<in> set (wrows ?df').
                 num r' ''cluster_risk_adjustment'' = Fin (spec_cluster_adj (wrows ?df') r')
               \<and> 0 \<le> spec_cluster_adj (wrows ?df') r'
               \<and> (0 < spec_cluster_adj (wrows ?df') r' \<longleftrightarrow>
                    0 < mean_base (filter (\<lambda>m. cluster m = cluster r') (wrows ?df')))"
  proof
    fix r' assume r': "r' \<in> set (wrows ?df')"
    let ?cm = "mean_base (filter (\<lambda>m. cluster m = cluster r') ?rs)"
    have cm: "0 \<le> ?cm" using nn by (intro mean_base_nonneg) auto
    have adj: "spec_cluster_adj ?rs r' = ?cm / mean_base (wrows df)"
      by (simp add: spec_cluster_adj_def pr)
    have "num r' ''cluster_risk_adjustment'' = Fin (spec_cluster_adj ?rs r')"
      using rp(4) r' by simp
    moreover have "0 \<le> spec_cluster_adj ?rs r'"
      unfolding adj using cm pos by simp
    moreover have "0 < spec_cluster_adj ?rs r' \<longleftrightarrow> 0 < ?cm"
      unfolding adj using pos by (simp add: zero_less_divide_iff)
    ultimately show "num r' ''cluster_risk_adjustment'' = Fin (spec_cluster_adj (wrows ?df') r')
               \<and> 0 \<le> spec_cluster_adj (wrows ?df') r'
               \<and> (0 < spec_cluster_adj (wrows ?df') r' \<longleftrightarrow>
                    0 < mean_base (filter (\<lambda>m. cluster m = cluster r') (wrows ?df')))"
      by simp
  qed
  have 2: "map cluster (wrows ?df') = k" using rp(1) by simp
  have 3: "map base_of (wrows ?df') = map base_of (wrows df)" using rp(3) by simp
  from 1 2 3 4 show ?thesis by blast
qed

lemma demo_scored_rows:
  "wrows demo_mixed_scores
     = [demo_scored_row ''0xa'' 1 0, demo_scored_row ''0xb'' 2 100,
        demo_scored_row ''0xc'' 3 200, demo_scored_row ''0xd'' 4 300,
        demo_scored_row ''0xe'' 5 400]"
  "wrows demo_zero_scores
     = [demo_scored_row ''0xa'' 1 0, demo_scored_row ''0xb'' 2 0,
        demo_scored_row ''0xc'' 3 0, demo_scored_row ''0xd'' 4 0,
        demo_scored_row ''0xe'' 5 0]"
  "''base_risk_score'' \<in> set (wcolumns demo_mixed_scores)"
  "''base_risk_score'' \<in> set (wcolumns demo_zero_scores)"
  by (simp_all add: demo_mixed_scores_def demo_zero_scores_def)

lemma demo_row_simps [simp]:
  "num (demo_scored_row w t b) ''base_risk_score'' = Fin b"
  "base_of (demo_scored_row w t b) = b"
  by (simp_all add: demo_scored_row_def base_of_def)

lemma demo_adjustments:
  "map (\<lambda>r. num r ''cluster_risk_adjustment'')
     (refined_rows (wrows demo_mixed_scores) [1, 1, - 1, 1, 1] [2, 3, 4, 0, 1])
   = [Fin 0, Fin (1 / 2), Fin 1, Fin (3 / 2), Fin 2]"
  "map (\<lambda>r. num r ''cluster_risk_adjustment'')
     (refined_rows (wrows demo_zero_scores) [1, 1, - 1, 1, 1] [2, 3, 4, 0, 1])
   = [NaN, NaN, NaN, NaN, NaN]"
  by (simp_all add: demo_scored_rows refined_rows_def cluster_risk_adj_def cluster_mean_def
        fl_mean_def Let_def inf_signed_def)

text \<open>
  C4, as stated, fails. With five wallets whose \<^verbatim>\<open>base_risk_score\<close> is 0 the
  population mean is 0 and every adjustment is 0 / 0, NaN; with the scores 0, 100, 200,
  300, 400 and every wallet in a cluster of its own, the first wallet gets the
  adjustment 0, which is not positive.
\<close>

theorem cluster_risk_adjustment_not_positive_counterexample:
  "feature_column ''cluster_risk_adjustment''
     (apply_ml_refinements demo_iforest demo_kmeans 0 demo_zero_scores)
     = Inr [NaN, NaN, NaN, NaN, NaN]
   \<and> feature_column ''cluster_risk_adjustment''
       (apply_ml_refinements demo_iforest demo_kmeans 0 demo_mixed_scores)
     = Inr [Fin 0, Fin (1 / 2), Fin 1, Fin (3 / 2), Fin 2]"
proof -
  from demo_X_scaled(2) obtain Z where Z: "X_scaled_of demo_zero_scores = Inr Z" "length Z = 5"
    by blast
  from demo_X_scaled(1) obtain M where M: "X_scaled_of demo_mixed_scores = Inr M" "length M = 5"
    by blast
  have lz: "length [1, 1, - 1, 1, 1 :: int] = length (wrows demo_zero_scores)"
    "length [2, 3, 4, 0, 1 :: nat] = length (wrows demo_zero_scores)"
    by (simp_all add: demo_scored_rows)
  have lm: "length [1, 1, - 1, 1, 1 :: int] = length (wrows demo_mixed_scores)"
    "length [2, 3, 4, 0, 1 :: nat] = length (wrows demo_mixed_scores)"
    by (simp_all add: demo_scored_rows)
  note az = apply_returns[where IsolationForest = demo_iforest and KMeans = demo_kmeans
      and rng = 0, OF Z(1) demo_labels(1)[OF Z(2)] lz(1) demo_labels(2)[OF Z(2)] lz(2)
      demo_scored_rows(4)]
  note am = apply_returns[where IsolationForest = demo_iforest and KMeans = demo_kmeans
      and rng = 0, OF M(1) demo_labels(1)[OF M(2)] lm(1) demo_labels(2)[OF M(2)] lm(2)
      demo_scored_rows(3)]
  show ?thesis
    unfolding az am feature_column_def
    by (simp only: sum.case wtable.select_convs demo_adjustments simp_thms)
qed

theorem cluster_risk_adjustment_ratio_witness:
  "\<exists>df'. apply_ml_refinements demo_iforest demo_kmeans 0 demo_mixed_scores = Inr df'
     \<and> map cluster (wrows df') = [2, 3, 4, 0, 1]
     \<and> map base_of (wrows df') = [0, 100, 200, 300, 400]"
proof -
  from demo_X_scaled(1) obtain M where M: "X_scaled_of demo_mixed_scores = Inr M" "length M = 5"
    by blast
  have lm: "length [1, 1, - 1, 1, 1 :: int] = length (wrows demo_mixed_scores)"
    "length [2, 3, 4, 0, 1 :: nat] = length (wrows demo_mixed_scores)"
    by (simp_all add: demo_scored_rows)
  have base: "\<forall>r \<in> set (wrows demo_mixed_scores).
                is_fin (num r ''base_risk_score'') \<and> 0 \<le> base_of r"
    by (simp add: demo_scored_rows)
  have pos: "0 < mean_base (wrows demo_mixed_scores)"
    by (simp add: demo_scored_rows mean_base_def)
  from cluster_risk_adjustment_ratio[where IsolationForest = demo_iforest
      and KMeans = demo_kmeans and rng = 0,
      OF M(1) demo_labels(1)[OF M(2)] lm(1) demo_labels(2)[OF M(2)] lm(2)
         demo_scored_rows(3) base pos]
  obtain df' where "apply_ml_refinements demo_iforest demo_kmeans 0 demo_mixed_scores = Inr df'"
    "map cluster (wrows df') = [2, 3, 4, 0, 1]"
    "map base_of (wrows df') = map base_of (wrows demo_mixed_scores)"
    by (elim exE conjE)
  then show ?thesis by (auto simp: demo_scored_rows)
qed

text \<open>
  C9. The code passes \<^verbatim>\<open>random_state=42\<close> to both estimators. When an estimator
  with a fixed \<^verbatim>\<open>random_state\<close> does not depend on the state of the global random
  generator (scikit-learn's contract), two runs of \<^verbatim>\<open>apply_ml_refinements\<close> on the
  same table give the same result, whatever that state is in each run: the same
  \<^verbatim>\<open>is_anomaly\<close> flags, \<^verbatim>\<open>cluster\<close> labels and adjustments, or the same error.
\<close>

theorem apply_ml_refinements_deterministic:
  assumes "\<forall>config g g' X. if_random_state config \<noteq> None
             \<longrightarrow> IsolationForest config g X = IsolationForest config g' X"
    and "\<forall>config g g' X. km_random_state config \<noteq> None
             \<longrightarrow> KMeans config g X = KMeans config g' X"
  shows "apply_ml_refinements IsolationForest KMeans rng df
           = apply_ml_refinements IsolationForest KMeans rng' df"
proof -
  have i: "IsolationForest iso_forest_params rng X = IsolationForest iso_forest_params rng' X"
    for X
    using assms(1) by (simp add: iso_forest_params_def)
  have k: "KMeans kmeans_params rng X = KMeans kmeans_params rng' X" for X
    using assms(2) by (simp add: kmeans_params_def)
  show ?thesis
    unfolding apply_ml_refinements_def i k by (rule refl)
qed

lemma demo_estimators_seeded:
  "\<forall>config g g' X. if_random_state config \<noteq> None
      \<longrightarrow> demo_iforest config g X = demo_iforest config g' X"
  "\<forall>config g g' X. km_random_state config \<noteq> None
      \<longrightarrow> demo_kmeans config g X = demo_kmeans config g' X"
  by (auto simp: demo_iforest_def demo_kmeans_def)

theorem apply_ml_refinements_deterministic_witness:
  "apply_ml_refinements demo_iforest demo_kmeans 0 demo_mixed_scores
     = apply_ml_refinements demo_iforest demo_kmeans 7 demo_mixed_scores
   \<and> demo_iforest (iso_forest_params\<lparr>if_random_state := None\<rparr>) 0 [[0], [1]]
       \<noteq> demo_iforest (iso_forest_params\<lparr>if_random_state := None\<rparr>) 7 [[0], [1]]
   \<and> demo_kmeans (kmeans_params\<lparr>km_random_state := None\<rparr>) 0 [[0], [1]]
       \<noteq> demo_kmeans (kmeans_params\<lparr>km_random_state := None\<rparr>) 7 [[0], [1]]"
proof -
  have "apply_ml_refinements demo_iforest demo_kmeans 0 demo_mixed_scores
     = apply_ml_refinements demo_iforest demo_kmeans 7 demo_mixed_scores"
    by (rule apply_ml_refinements_deterministic[OF demo_estimators_seeded])
  moreover have "demo_iforest (iso_forest_params\<lparr>if_random_state := None\<rparr>) 0 [[0], [1]]
       \<noteq> demo_iforest (iso_forest_params\<lparr>if_random_state := None\<rparr>) 7 [[0], [1]]"
    by (simp add: demo_iforest_def iso_forest_params_def upt_rec)
  moreover have "demo_kmeans (kmeans_params\<lparr>km_random_state := None\<rparr>) 0 [[0], [1]]
       \<noteq> demo_kmeans (kmeans_params\<lparr>km_random_state := None\<rparr>) 7 [[0], [1]]"
    by (simp add: demo_kmeans_def kmeans_params_def upt_rec)
  ultimately show ?thesis by blast
qed

end
